theory Spec2Isabelle
  imports Main
begin

section \<open>Python values: strings, errors, times\<close>

text \<open>
  The development embeds \<^verbatim>\<open>himawari_api/io.py\<close>. A leading underscore of a source name is
  dropped (\<^verbatim>\<open>_check_satellite\<close> is \<open>check_satellite\<close>), and a name that clashes with a HOL
  constant gets a suffix. Python strings are modelled as HOL strings; the case conversions
  below act on the ASCII letters, which is what \<^verbatim>\<open>str.upper\<close> does on ASCII text.

  Every \<^verbatim>\<open>raise\<close> of the source is a value \<open>Inl e\<close>. A \<^verbatim>\<open>ValueError\<close> carries the message of
  the source, with the interpolation left as written, and the interpolated list of valid
  keys where the message has one. The \<^verbatim>\<open>isinstance\<close> guards that raise \<^verbatim>\<open>TypeError\<close> are
  discharged by the types of the model and have no branch here.
\<close>

datatype error =
    ValueError string "string list"
  | TypeError string
  | NotImplementedError string
  | OSError string
  | IndexError
  | KeyError string
  | UnboundLocalError string
  | AttributeError string

definition upper_char :: "char \<Rightarrow> char" where
  "upper_char c =
     (case map_of (zip ''abcdefghijklmnopqrstuvwxyz'' ''ABCDEFGHIJKLMNOPQRSTUVWXYZ'') c of
        None \<Rightarrow> c
      | Some u \<Rightarrow> u)"

definition lower_char :: "char \<Rightarrow> char" where
  "lower_char c =
     (case map_of (zip ''ABCDEFGHIJKLMNOPQRSTUVWXYZ'' ''abcdefghijklmnopqrstuvwxyz'') c of
        None \<Rightarrow> c
      | Some l \<Rightarrow> l)"

definition upper :: "string \<Rightarrow> string" where
  "upper s = map upper_char s"

definition capitalize :: "string \<Rightarrow> string" where
  "capitalize s = (case s of [] \<Rightarrow> [] | c # cs \<Rightarrow> upper_char c # map lower_char cs)"

text \<open>\<^verbatim>\<open>p in s\<close> on strings: \<open>p\<close> occurs in \<open>s\<close> as a contiguous block.\<close>

primrec contains :: "string \<Rightarrow> string \<Rightarrow> bool" where
  "contains [] p = (p = [])"
| "contains (c # cs) p = (take (length p) (c # cs) = p \<or> contains cs p)"

text \<open>\<^verbatim>\<open>s.replace("-", "")\<close>.\<close>

definition remove_hyphens :: "string \<Rightarrow> string" where
  "remove_hyphens s = filter (\<lambda>c. c \<noteq> CHR ''-'') s"

text \<open>
  \<^verbatim>\<open>os.path.join\<close> of two components (POSIX): an absolute second component replaces the
  first, otherwise a single separator is put between them unless the first is empty or
  already ends with one. \<^verbatim>\<open>os.path.basename\<close> is what follows the last separator.
\<close>

definition path_join :: "string \<Rightarrow> string \<Rightarrow> string" where
  "path_join a b =
     (if take 1 b = ''/'' then b
      else if a = [] \<or> last a = CHR ''/'' then a @ b
      else a @ ''/'' @ b)"

definition basename :: "string \<Rightarrow> string" where
  "basename p = rev (takeWhile (\<lambda>c. c \<noteq> CHR ''/'') (rev p))"

text \<open>
  A \<^verbatim>\<open>datetime\<close> is the number of microseconds since a fixed midnight, a \<^verbatim>\<open>timedelta\<close> a
  number of microseconds. \<^verbatim>\<open>replace(microsecond=0)\<close> and \<^verbatim>\<open>replace(microsecond=0, second=0)\<close>
  drop the part below the second and below the minute. The year range of \<^verbatim>\<open>datetime\<close>
  (an \<^verbatim>\<open>OverflowError\<close> outside of it) is not modelled.
\<close>

type_synonym datetime = int
type_synonym timedelta = int

definition seconds :: "int \<Rightarrow> timedelta" where
  "seconds n = n * 1000000"

definition minutes :: "int \<Rightarrow> timedelta" where
  "minutes n = n * 60000000"

definition replace_microsecond0 :: "datetime \<Rightarrow> datetime" where
  "replace_microsecond0 t = t - t mod 1000000"

definition replace_microsecond0_second0 :: "datetime \<Rightarrow> datetime" where
  "replace_microsecond0_second0 t = t - t mod 60000000"

section \<open>Alias tables\<close>

text \<open>The three dictionaries, as association lists in the order of the source.\<close>

definition satellites :: "(string \<times> string list) list" where
  "satellites =
     [(''himawari-8'', [''H8'', ''H08'', ''HIMAWARI-8'', ''HIMAWARI8'']),
      (''himawari-9'', [''H9'', ''H08'', ''HIMAWARI-9'', ''HIMAWARI9''])]"

definition sectors :: "(string \<times> string list) list" where
  "sectors =
     [(''FLDK'', [''FLDK'', ''FULL'', ''FULLDISK'', ''FULL DISK'', ''F'']),
      (''Japan'', [''JAPAN'', ''JAPAN_AREA'', ''JAPAN AREA'', ''J'']),
      (''Target'', [''TARGET'', ''TARGET_AREA'', ''TARGET AREA'', ''T'']),
      (''Landmark'', [''LANDMARK'', ''M'', ''MESOSCALE''])]"

definition channels :: "(string \<times> string list) list" where
  "channels =
     [(''B01'', [''B01'', ''C01'', ''1'', ''01'', ''0.47'', ''0.46'', ''BLUE'', ''B'']),
      (''B02'', [''B02'', ''C02'', ''2'', ''02'', ''0.51'', ''RED'', ''R'']),
      (''B03'', [''B03'', ''C03'', ''3'', ''03'', ''0.64'', ''GREEN'', ''G'']),
      (''B04'', [''B04'', ''C04'', ''4'', ''04'', ''0.86'', ''CIRRUS'']),
      (''B05'', [''B05'', ''C05'', ''5'', ''05'', ''1.6'', ''SNOW/ICE'']),
      (''B06'', [''B06'', ''C06'', ''6'', ''06'', ''2.3'', ''CLOUD PARTICLE SIZE'', ''CPS'']),
      (''B07'', [''B07'', ''C07'', ''7'', ''07'', ''3.9'', ''IR SHORTWAVE WINDOW'',
                 ''IR SHORTWAVE'']),
      (''B08'', [''B08'', ''C08'', ''8'', ''08'', ''6.2'',
                 ''UPPER-LEVEL TROPOSPHERIC WATER VAPOUR'', ''UPPER-LEVEL WATER VAPOUR'']),
      (''B09'', [''B09'', ''C09'', ''9'', ''09'', ''6.9'', ''7.0'',
                 ''MID-LEVEL TROPOSPHERIC WATER VAPOUR'', ''MID-LEVEL WATER VAPOUR'']),
      (''B10'', [''B10'', ''C10'', ''10'', ''10'', ''7.3'',
                 ''LOWER-LEVEL TROPOSPHERIC WATER VAPOUR'', ''LOWER-LEVEL WATER VAPOUR'']),
      (''B11'', [''B11'', ''C11'', ''11'', ''11'', ''8.6'', ''CLOUD-TOP PHASE'', ''CTP'']),
      (''B12'', [''B12'', ''C12'', ''12'', ''12'', ''9.6'', ''OZONE'']),
      (''B13'', [''B13'', ''C13'', ''13'', ''10.4'', ''CLEAN IR LONGWAVE WINDOW'', ''CLEAN IR'']),
      (''B14'', [''B14'', ''C14'', ''14'', ''11.2'', ''IR LONGWAVE WINDOW'', ''IR LONGWAVE'']),
      (''B15'', [''B16'', ''C15'', ''15'', ''12.3'', ''12.4'', ''DIRTY LONGWAVE WINDOW'',
                 ''DIRTY IR'']),
      (''B16'', [''B16'', ''C16'', ''16'', ''13.3'', ''CO2 IR LONGWAVE'', ''CO2'', ''CO2 IR''])]"

text \<open>
  The lookup loop shared by the three checks:
  \<^verbatim>\<open>for key, possible_values in table.items(): if s in possible_values: ...; break\<close>.
  The first key, in the order of the dictionary, whose list holds the string wins.
\<close>

fun find_alias_key :: "(string \<times> string list) list \<Rightarrow> string \<Rightarrow> string option" where
  "find_alias_key [] s = None"
| "find_alias_key ((key, possible_values) # rest) s =
     (if List.member possible_values s then Some key else find_alias_key rest s)"

definition check_satellite :: "string \<Rightarrow> error + string" where
  "check_satellite satellite =
     (case find_alias_key satellites (upper satellite) of
        None \<Rightarrow> Inl (ValueError ''Available satellite: {valid_satellite_key}'' (map fst satellites))
      | Some satellite_key \<Rightarrow> Inr satellite_key)"

definition check_channel :: "string \<Rightarrow> error + string" where
  "check_channel channel =
     (let channel = upper channel in
      if List.member (map fst channels) channel then Inr channel
      else (case find_alias_key channels (upper channel) of
              None \<Rightarrow> Inl (ValueError ''Available channels: {valid_channels_key}'' (map fst channels))
            | Some channel_key \<Rightarrow> Inr channel_key))"

section \<open>File-name wildcard\<close>

text \<open>
  \<^verbatim>\<open>get_fname_glob_pattern\<close>. Its \<^verbatim>\<open>else\<close> branch is the expression statement
  \<^verbatim>\<open>fname_pattern == "*.nc*"\<close>: a comparison that reads the local \<^verbatim>\<open>fname_pattern\<close> before
  anything was assigned to it, which Python answers with \<^verbatim>\<open>UnboundLocalError\<close>.
\<close>

definition get_fname_glob_pattern :: "string \<Rightarrow> error + string" where
  "get_fname_glob_pattern product_level =
     (if product_level = ''L1b'' then Inr ''*.bz2*''
      else Inl (UnboundLocalError ''fname_pattern''))"

section \<open>What the module takes from outside\<close>

text \<open>
  The value of \<^verbatim>\<open>scene_abbr\<close> in the file information is a string or a list of strings.
\<close>

datatype scene = Scene string | Scenes "string list"

text \<open>
  The file information dictionary, with the keys the module reads or writes; a key that
  is absent is \<open>None\<close>. The remaining keys a file-name pattern may bind (spatial
  resolution, segment numbers) are never read by the code below.
\<close>

record info_dict =
  start_time :: "datetime option"
  end_time :: "datetime option"
  production_time :: "datetime option"
  creation_time :: "datetime option"
  sector_observation_number :: "string option"
  platform_shortname :: "string option"
  platform_fullname :: "string option"
  channel :: "string option"
  product :: "string option"
  sensor :: "string option"
  product_level :: "string option"
  sector :: "string option"
  scene_abbr :: "scene option"
  satellite :: "string option"

text \<open>
  The collaborators and the tables that live outside \<^verbatim>\<open>io.py\<close> are parameters:
  \<^item> \<open>PRODUCTS\<close> is \<^verbatim>\<open>himawari_api.listing.PRODUCTS["AHI"]\<close>, product level to product
    names, in dictionary order; \<open>AHI_L2_SECTOR_EXCEPTIONS\<close> is the table of that name;
  \<^item> \<open>parse level product fname\<close> is
    \<^verbatim>\<open>Parser(GLOB_FNAME_PATTERN["AHI"][level][product]).parse(fname)\<close> (trollsift), with the
    error it raises when the table has no such pattern or the name does not match;
  \<^item> \<open>dt_to_year_month_day_hhmm\<close> is the function of that name of
    \<^verbatim>\<open>himawari_api.utils.time\<close>;
  \<^item> \<open>glob protocol pattern\<close> is \<^verbatim>\<open>fsspec.filesystem(protocol).glob(pattern)\<close>;
  \<^item> \<open>utcnow\<close> is the wall clock, read once per call;
  \<^item> \<open>path_exists\<close> and \<open>path_isdir\<close> are \<^verbatim>\<open>os.path.exists\<close> and \<^verbatim>\<open>os.path.isdir\<close>.
\<close>

record env =
  PRODUCTS :: "(string \<times> string list) list"
  AHI_L2_SECTOR_EXCEPTIONS :: "(string \<times> string list) list"
  parse :: "string \<Rightarrow> string \<Rightarrow> string \<Rightarrow> error + info_dict"
  dt_to_year_month_day_hhmm :: "datetime \<Rightarrow> string list"
  glob :: "string \<Rightarrow> string \<Rightarrow> string list"
  utcnow :: datetime
  path_exists :: "string \<Rightarrow> bool"
  path_isdir :: "string \<Rightarrow> bool"

text \<open>Sequencing of computations that may raise.\<close>

definition ebind :: "error + 'a \<Rightarrow> ('a \<Rightarrow> error + 'b) \<Rightarrow> error + 'b" where
  "ebind m f = (case m of Inl e \<Rightarrow> Inl e | Inr x \<Rightarrow> f x)"

section \<open>Metadata from a file name\<close>

text \<open>
  \<^verbatim>\<open>int(s)\<close> on a string: surrounding white space is dropped, a sign may lead, and the
  digits may be grouped by single underscores.
\<close>

definition is_space :: "char \<Rightarrow> bool" where
  "is_space c =
     List.member [CHR '' '', CHR 0x09, CHR 0x0A, CHR 0x0B, CHR 0x0C, CHR 0x0D,
                  CHR 0x1C, CHR 0x1D, CHR 0x1E, CHR 0x1F] c"

definition strip :: "string \<Rightarrow> string" where
  "strip s = dropWhile is_space (rev (dropWhile is_space (rev s)))"

definition digit_of :: "char \<Rightarrow> int option" where
  "digit_of c = map_of (zip ''0123456789'' [0, 1, 2, 3, 4, 5, 6, 7, 8, 9]) c"

fun digits_acc :: "int \<Rightarrow> string \<Rightarrow> int option" where
  "digits_acc acc [] = Some acc"
| "digits_acc acc (c # cs) =
     (if c = CHR ''_''
      then (case cs of
              [] \<Rightarrow> None
            | d # ds \<Rightarrow> if d = CHR ''_'' then None else digits_acc acc cs)
      else (case digit_of c of
              None \<Rightarrow> None
            | Some d \<Rightarrow> digits_acc (10 * acc + d) cs))"

definition unsigned_int :: "string \<Rightarrow> int option" where
  "unsigned_int s =
     (case s of
        [] \<Rightarrow> None
      | c # cs \<Rightarrow> if c = CHR ''_'' then None else digits_acc 0 s)"

definition py_int :: "string \<Rightarrow> error + int" where
  "py_int s =
     (let t = strip s;
          r = (case t of
                 [] \<Rightarrow> None
               | c # cs \<Rightarrow>
                   if c = CHR ''-'' then map_option uminus (unsigned_int cs)
                   else if c = CHR ''+'' then unsigned_int cs
                   else unsigned_int t)
      in case r of
           None \<Rightarrow> Inl (ValueError ''invalid literal for int() with base 10'' [])
         | Some n \<Rightarrow> Inr n)"

definition l2_products :: "string list" where
  "l2_products =
     [''HYDRO_RAIN_RATE'', ''RRQPE'', ''CLOUD_HEIGHT'', ''CHGT'', ''CLOUD_MASK'', ''CMSK'',
      ''CLOUD_PHASE'', ''CPHS'']"

definition infer_product_level :: "string \<Rightarrow> error + string" where
  "infer_product_level fpath =
     (let fname = basename fpath in
      if list_ex (contains fname) l2_products then Inr ''L2''
      else if contains fname ''HS'' then Inr ''L1b''
      else Inl (ValueError ''`product_level` could not be inferred from {fname}.'' []))"

definition infer_product :: "string \<Rightarrow> error + string" where
  "infer_product fpath =
     (let fname = basename fpath in
      case find (contains fname) l2_products of
        Some p \<Rightarrow> Inr p
      | None \<Rightarrow>
          if contains fname ''HS'' then Inr ''Rad''
          else Inl (ValueError ''`product` could not be inferred from {fname}.'' []))"

text \<open>
  \<^verbatim>\<open>_separate_sector_observation_number\<close>: \<^verbatim>\<open>s[-2:]\<close> is the last two characters,
  \<^verbatim>\<open>s[1]\<close> raises \<^verbatim>\<open>IndexError\<close> on a string shorter than two, \<^verbatim>\<open>s[2:]\<close> drops two.
\<close>

definition separate_sector_observation_number ::
    "string \<Rightarrow> error + (string \<times> scene \<times> int option)" where
  "separate_sector_observation_number s =
     (if contains s ''FLDK'' then Inr (''FLDK'', Scene ''F'', None)
      else if contains s ''JP'' then
        ebind (py_int (drop (length s - 2) s)) (\<lambda>observation_number.
          Inr (''JP'', Scenes [''R1'', ''R2''], Some observation_number))
      else if contains s ''R'' then
        (case drop 1 s of
           [] \<Rightarrow> Inl IndexError
         | c # cs \<Rightarrow>
             ebind (py_int [c]) (\<lambda>region_index.
             ebind (py_int (drop 2 s)) (\<lambda>observation_number.
               if region_index = 3 then Inr (''Target'', Scene ''R3'', Some observation_number)
               else if region_index = 4 then
                 Inr (''Landmark'', Scene ''R4'', Some observation_number)
               else Inr (''Landmark'', Scene ''R5'', Some observation_number))))
      else Inl (NotImplementedError ''Adapt the file patterns.''))"

text \<open>
  \<^verbatim>\<open>_get_info_from_filename\<close>, block by block. First the loop that drops the sub-second
  part of the four time keys (a key that is absent stays absent: the \<^verbatim>\<open>KeyError\<close> is
  swallowed by the bare \<^verbatim>\<open>except\<close>).
\<close>

definition truncate_times :: "info_dict \<Rightarrow> info_dict" where
  "truncate_times d =
     d\<lparr>start_time := map_option replace_microsecond0 (start_time d),
       end_time := map_option replace_microsecond0 (end_time d),
       production_time := map_option replace_microsecond0 (production_time d),
       creation_time := map_option replace_microsecond0 (creation_time d)\<rparr>"

text \<open>
  The body shared by the two \<^verbatim>\<open>if\<close> blocks on the sector:
  \<^verbatim>\<open>start_time = info_dict["start_time"]\<close>,
  \<^verbatim>\<open>start_time = start_time + (observation_number-1)*cadence\<close>,
  \<^verbatim>\<open>end_time = start_time + (observation_number)*cadence\<close>, and both are stored.
  The second line rebinds \<^verbatim>\<open>start_time\<close>, so the third adds to the shifted value.
\<close>

definition shift_times :: "timedelta \<Rightarrow> int option \<Rightarrow> info_dict \<Rightarrow> error + info_dict" where
  "shift_times cadence observation_number d =
     (case start_time d of
        None \<Rightarrow> Inl (KeyError ''start_time'')
      | Some t \<Rightarrow>
          (case observation_number of
             None \<Rightarrow> Inl (TypeError ''unsupported operand type(s) for -'')
           | Some n \<Rightarrow>
               (let t1 = t + (n - 1) * cadence;
                    t2 = t1 + n * cadence
                in Inr (d\<lparr>start_time := Some t1, end_time := Some t2\<rparr>))))"

definition apply_sector_observation_number :: "info_dict \<Rightarrow> error + info_dict" where
  "apply_sector_observation_number d =
     (case sector_observation_number d of
        None \<Rightarrow> Inr d
      | Some token \<Rightarrow>
          ebind (separate_sector_observation_number token) (\<lambda>(sec, scn, observation_number).
            let d1 = d\<lparr>sector := Some sec, scene_abbr := Some scn\<rparr> in
            ebind (if sec = ''Japan'' \<or> (sec = ''Target'' \<and> scn = Scene ''R3'')
                   then shift_times (minutes 2 + seconds 30) observation_number d1
                   else Inr d1) (\<lambda>d2.
              if sec = ''Landmark'' \<and> List.member [Scene ''R4'', Scene ''R5''] scn
              then shift_times (seconds 30) observation_number d2
              else Inr d2)))"

definition default_end_time :: "info_dict \<Rightarrow> error + info_dict" where
  "default_end_time d =
     (case end_time d of
        Some e \<Rightarrow> Inr d
      | None \<Rightarrow>
          (case start_time d of
             None \<Rightarrow> Inl (KeyError ''start_time'')
           | Some t \<Rightarrow> Inr (d\<lparr>end_time := Some (t + minutes 10)\<rparr>)))"

definition default_sector :: "info_dict \<Rightarrow> info_dict" where
  "default_sector d = (case sector d of None \<Rightarrow> d\<lparr>sector := Some ''FLDK''\<rparr> | Some s \<Rightarrow> d)"

definition homogenize_product :: "string \<Rightarrow> info_dict \<Rightarrow> error + info_dict" where
  "homogenize_product inferred d =
     (if product_level d = Some ''L2'' then
        (case product d of
           None \<Rightarrow> Inl (KeyError ''product'')
         | Some p \<Rightarrow>
             if List.member [''CLOUD_MASK'', ''CMSK''] p then Inr (d\<lparr>product := Some ''CMSK''\<rparr>)
             else if List.member [''CPHS'', ''CLOUD_PHASE''] p then Inr (d\<lparr>product := Some ''CPHS''\<rparr>)
             else if List.member [''CHGT'', ''CLOUD_HEIGHT''] p then Inr (d\<lparr>product := Some ''CHGT''\<rparr>)
             else if List.member [''RRQPE'', ''HYDRO_RAIN_RATE''] p
               then Inr (d\<lparr>product := Some ''RRQPE''\<rparr>)
             else Inl (NotImplementedError []))
      else Inr (d\<lparr>product := Some inferred\<rparr>))"

definition derive_satellite :: "info_dict \<Rightarrow> error + info_dict" where
  "derive_satellite d =
     (case platform_shortname d of
        Some short \<Rightarrow>
          if ''H08'' = upper short then Inr (d\<lparr>satellite := Some ''HIMAWARI-8''\<rparr>)
          else if ''H09'' = upper short then Inr (d\<lparr>satellite := Some ''HIMAWARI-9''\<rparr>)
          else Inl (ValueError
                 ''Processing of satellite {platform_shortname} not yet implemented.'' [])
      | None \<Rightarrow>
          (case platform_fullname d of
             Some full \<Rightarrow>
               if ''HIMAWARI8'' = upper full then Inr (d\<lparr>satellite := Some ''HIMAWARI-8''\<rparr>)
               else if ''HIMAWARI9'' = upper full then Inr (d\<lparr>satellite := Some ''HIMAWARI-9''\<rparr>)
               else Inl (ValueError
                      ''Processing of satellite {platform_fullname} not yet implemented.'' [])
           | None \<Rightarrow> Inl (ValueError ''Satellite name not derivable from file name.'' [])))"

text \<open>Everything \<^verbatim>\<open>_get_info_from_filename\<close> does once the parser has answered.\<close>

definition info_from_parsed :: "string \<Rightarrow> string \<Rightarrow> info_dict \<Rightarrow> error + info_dict" where
  "info_from_parsed level inferred parsed =
     (let d = truncate_times (parsed\<lparr>sensor := Some ''AHI'', product_level := Some level\<rparr>) in
      ebind (apply_sector_observation_number d) (\<lambda>d.
      ebind (default_end_time d) (\<lambda>d.
      ebind (homogenize_product inferred (default_sector d)) (\<lambda>d.
      derive_satellite d))))"

definition get_info_from_filename :: "env \<Rightarrow> string \<Rightarrow> error + info_dict" where
  "get_info_from_filename env fname =
     ebind (infer_product_level fname) (\<lambda>level.
     ebind (infer_product fname) (\<lambda>inferred.
     ebind (parse env level inferred fname) (\<lambda>parsed.
     info_from_parsed level inferred parsed)))"

definition get_info_from_filepath :: "env \<Rightarrow> string \<Rightarrow> error + info_dict" where
  "get_info_from_filepath env fpath = get_info_from_filename env (basename fpath)"

section \<open>Filtering\<close>

text \<open>
  \<^verbatim>\<open>_filter_file\<close> returns the path, or \<^verbatim>\<open>None\<close> for a file that is filtered out. The
  product level it is given is not used. A scene list of the file (\<open>Scenes\<close>) is never
  equal to one of the strings of the \<^verbatim>\<open>scene_abbr\<close> filter.
\<close>

definition scene_in :: "scene \<Rightarrow> string list \<Rightarrow> bool" where
  "scene_in file_scene_abbr wanted =
     (case file_scene_abbr of Scene s \<Rightarrow> List.member wanted s | Scenes l \<Rightarrow> False)"

definition filter_file ::
    "env \<Rightarrow> string \<Rightarrow> string \<Rightarrow> datetime option \<Rightarrow> datetime option \<Rightarrow>
     string list option \<Rightarrow> string list option \<Rightarrow> error + string option" where
  "filter_file env fpath level query_start query_end wanted_channels wanted_scenes =
     ebind (get_info_from_filepath env fpath) (\<lambda>info.
       if (case wanted_channels of
             None \<Rightarrow> False
           | Some cs \<Rightarrow> (case channel info of None \<Rightarrow> False | Some c \<Rightarrow> \<not> List.member cs c))
       then Inr None
       else if (case wanted_scenes of
                  None \<Rightarrow> False
                | Some ss \<Rightarrow>
                    (case scene_abbr info of None \<Rightarrow> False | Some fs \<Rightarrow> \<not> scene_in fs ss))
       then Inr None
       else
         ebind (case query_start of
                  None \<Rightarrow> Inr False
                | Some qs \<Rightarrow>
                    (case end_time info of
                       None \<Rightarrow> Inl (TypeError ''< not supported between NoneType and datetime'')
                     | Some file_end_time \<Rightarrow> Inr (file_end_time < qs))) (\<lambda>ends_before.
           if ends_before then Inr None
           else
             ebind (case query_end of
                      None \<Rightarrow> Inr False
                    | Some qe \<Rightarrow>
                        (case start_time info of
                           None \<Rightarrow>
                             Inl (TypeError ''> not supported between NoneType and datetime'')
                         | Some file_start_time \<Rightarrow> Inr (file_start_time > qe))) (\<lambda>starts_after.
               if starts_after then Inr None else Inr (Some fpath))))"

text \<open>
  \<^verbatim>\<open>_filter_files\<close>: the comprehension raises at the first path that raises, and the
  paths that were filtered out are dropped.
\<close>

fun filter_files ::
    "env \<Rightarrow> string list \<Rightarrow> string \<Rightarrow> datetime option \<Rightarrow> datetime option \<Rightarrow>
     string list option \<Rightarrow> string list option \<Rightarrow> error + string list" where
  "filter_files env [] level qs qe cs ss = Inr []"
| "filter_files env (fpath # fpaths) level qs qe cs ss =
     ebind (filter_file env fpath level qs qe cs ss) (\<lambda>kept.
     ebind (filter_files env fpaths level qs qe cs ss) (\<lambda>rest.
       Inr (case kept of None \<Rightarrow> rest | Some p \<Rightarrow> p # rest)))"

section \<open>Checks of the arguments\<close>

definition PROTOCOLS :: "string list" where
  "PROTOCOLS = [''s3'', ''local'', ''file'']"

definition check_protocol :: "string option \<Rightarrow> error + string option" where
  "check_protocol protocol =
     (case protocol of
        None \<Rightarrow> Inr None
      | Some p \<Rightarrow>
          if \<not> List.member PROTOCOLS p
          then Inl (ValueError ''Valid `protocol` are {PROTOCOLS}.'' PROTOCOLS)
          else if p = ''local'' then Inr (Some ''file'')
          else Inr (Some p))"

definition check_base_dir :: "env \<Rightarrow> string option \<Rightarrow> error + string option" where
  "check_base_dir env base_dir =
     (case base_dir of
        None \<Rightarrow> Inr None
      | Some b \<Rightarrow>
          if \<not> path_exists env b then Inl (OSError ''`base_dir` {base_dir} does not exist.'')
          else if \<not> path_isdir env b
            then Inl (OSError ''`base_dir` {base_dir} is not a directory.'')
          else Inr (Some b))"

definition check_connection_type ::
    "string option \<Rightarrow> string option \<Rightarrow> error + string option" where
  "check_connection_type connection_type protocol =
     (let ct1 = (if protocol = None then None else connection_type);
          ct2 = (if List.member [Some ''file'', Some ''local''] protocol then None else ct1)
      in if List.member [Some ''s3''] protocol then
           (let ct3 = (if ct2 = None then Some ''bucket'' else ct2)
            in if \<not> List.member [Some ''bucket'', Some ''https'', Some ''nc_bytes''] ct3
               then Inl (ValueError ''Valid `connection_type` are {valid_connection_type}.''
                          [''bucket'', ''https'', ''nc_bytes''])
               else Inr ct3)
         else Inr ct2)"

text \<open>
  \<^verbatim>\<open>_check_product_level\<close> as every caller modelled here uses it, with \<^verbatim>\<open>product=None\<close>.
\<close>

definition check_product_level :: "string \<Rightarrow> error + string" where
  "check_product_level level =
     (let l = capitalize level in
      if \<not> List.member [''L1b'', ''L2''] l
      then Inl (ValueError ''Available product levels are [L1b, L2].'' [])
      else Inr l)"

fun check_product_levels :: "string list \<Rightarrow> error + string list" where
  "check_product_levels [] = Inr []"
| "check_product_levels (l # ls) =
     ebind (check_product_level l) (\<lambda>l'.
     ebind (check_product_levels ls) (\<lambda>ls'. Inr (l' # ls')))"

text \<open>
  \<^verbatim>\<open>available_product_levels\<close> sorts the level names (\<^verbatim>\<open>np.unique\<close>); its callers only
  test membership in the list, so the order of the table is kept here.
\<close>

definition available_product_levels :: "env \<Rightarrow> string list" where
  "available_product_levels env = map fst (PRODUCTS env)"

definition get_dict_info_products ::
    "env \<Rightarrow> string list option \<Rightarrow> error + (string \<times> string list) list" where
  "get_dict_info_products env product_levels =
     ebind (check_product_levels
              (case product_levels of None \<Rightarrow> available_product_levels env | Some ls \<Rightarrow> ls))
       (\<lambda>levels. Inr (filter (\<lambda>(level, products). List.member levels level) (PRODUCTS env)))"

text \<open>
  The keys of \<^verbatim>\<open>get_dict_product_sensor\<close>: the products of the selected levels, each at
  the place of its first insertion.
\<close>

definition available_products :: "env \<Rightarrow> string list option \<Rightarrow> error + string list" where
  "available_products env product_levels =
     ebind (get_dict_info_products env product_levels) (\<lambda>listing.
       Inr (rev (remdups (rev (concat (map snd listing))))))"

definition check_product :: "env \<Rightarrow> string \<Rightarrow> string option \<Rightarrow> error + string" where
  "check_product env prd level =
     ebind (available_products env (map_option (\<lambda>l. [l]) level)) (\<lambda>valid_products.
       case find (\<lambda>v. upper v = upper prd) valid_products of
         Some product_key \<Rightarrow> Inr product_key
       | None \<Rightarrow>
           if level = None
           then Inl (ValueError ''Available products: {valid_products}'' valid_products)
           else Inl (ValueError ''Available {product_level} products: {valid_products}''
                      valid_products))"

definition available_sectors :: "env \<Rightarrow> string option \<Rightarrow> error + string list" where
  "available_sectors env prd =
     (case prd of
        None \<Rightarrow> Inr (map fst sectors)
      | Some p \<Rightarrow>
          ebind (check_product env p None) (\<lambda>p'.
            case map_of (AHI_L2_SECTOR_EXCEPTIONS env) p' of
              None \<Rightarrow> Inr (map fst sectors)
            | Some specific_sectors \<Rightarrow> Inr specific_sectors))"

definition check_sector :: "env \<Rightarrow> string option \<Rightarrow> string option \<Rightarrow> error + string" where
  "check_sector env sec prd =
     (case sec of
        None \<Rightarrow> Inl (ValueError ''sector must be specified.'' [])
      | Some s \<Rightarrow>
          (case find_alias_key sectors (upper s) of
             None \<Rightarrow> Inl (ValueError ''Available sectors: {valid_sector_keys}'' (map fst sectors))
           | Some sector_key \<Rightarrow>
               ebind (available_sectors env prd) (\<lambda>valid_sectors.
                 if prd \<noteq> None \<and> \<not> List.member valid_sectors sector_key
                 then Inl (ValueError ''Valid sectors for product {product} are {valid_sectors}.''
                            valid_sectors)
                 else Inr sector_key)))"

text \<open>
  \<^verbatim>\<open>_check_time\<close> accepts several types and converts to \<^verbatim>\<open>datetime\<close>; the model takes a
  \<^verbatim>\<open>datetime\<close>, on which it is the identity.
\<close>

definition check_start_end_time ::
    "env \<Rightarrow> datetime \<Rightarrow> datetime \<Rightarrow> error + (datetime \<times> datetime)" where
  "check_start_end_time env query_start query_end =
     (let s = replace_microsecond0 query_start;
          e = replace_microsecond0 query_end
      in if s > e then Inl (ValueError ''Provide start_time occuring before of end_time'' [])
         else if s > utcnow env
           then Inl (ValueError ''Provide a start_time occuring in the past.'' [])
         else if e > utcnow env
           then Inl (ValueError ''Provide a end_time occuring in the past.'' [])
         else Inr (s, e))"

fun check_channel_list :: "string list \<Rightarrow> error + string list" where
  "check_channel_list [] = Inr []"
| "check_channel_list (c # cs) =
     ebind (check_channel c) (\<lambda>c'.
     ebind (check_channel_list cs) (\<lambda>cs'. Inr (c' # cs')))"

definition check_channels :: "string list option \<Rightarrow> error + string list option" where
  "check_channels wanted =
     (case wanted of
        None \<Rightarrow> Inr None
      | Some cs \<Rightarrow> ebind (check_channel_list cs) (\<lambda>cs'. Inr (Some cs')))"

text \<open>
  \<^verbatim>\<open>_check_scene_abbr\<close>. For the sectors Target and Landmark the source evaluates the
  membership test as an expression statement and then raises unconditionally.
\<close>

definition check_scene_abbr ::
    "string list option \<Rightarrow> string option \<Rightarrow> error + string list option" where
  "check_scene_abbr wanted sec =
     (case wanted of
        None \<Rightarrow> Inr None
      | Some ss \<Rightarrow>
          if sec = Some ''FLDK''
          then Inl (ValueError
                 ''`scene_abbr` must be specified only for Japan and Target sectors !'' [])
          else if \<not> list_all (List.member [''R1'', ''R2'', ''R3'', ''R4'', ''R5'']) ss
          then Inl (ValueError ''Valid `scene_abbr` values are {valid_scene_abbr}.''
                     [''R1'', ''R2'', ''R3'', ''R4'', ''R5''])
          else if sec = Some ''Japan'' \<and> \<not> list_all (List.member [''R1'', ''R2'']) ss
          then Inl (ValueError ''Valid `scene_abbr` for Japan sector are {valid_scene_abbr}.''
                     [''R1'', ''R2''])
          else if sec = Some ''Target''
          then Inl (ValueError ''Valid `scene_abbr` for Target sector are {valid_scene_abbr}.''
                     [''R3''])
          else if sec = Some ''Landmark''
          then Inl (ValueError ''Valid `scene_abbr` for Landmark sector are {valid_scene_abbr}.''
                     [''R4'', ''R5''])
          else Inr (Some ss))"

text \<open>
  The \<^verbatim>\<open>filter_parameters\<close> dictionary with its two valid keys. A value that is \<^verbatim>\<open>None\<close>
  or empty is falsy and is passed on unchecked.
\<close>

record filter_parameters =
  fp_channels :: "string list option"
  fp_scene_abbr :: "string list option"

definition check_filter_parameters ::
    "filter_parameters \<Rightarrow> string \<Rightarrow> error + filter_parameters" where
  "check_filter_parameters fp sec =
     ebind (if fp_channels fp = None \<or> fp_channels fp = Some []
            then Inr fp
            else ebind (check_channels (fp_channels fp)) (\<lambda>cs. Inr (fp\<lparr>fp_channels := cs\<rparr>)))
       (\<lambda>fp1.
          if fp_scene_abbr fp = None \<or> fp_scene_abbr fp = Some []
          then Inr fp1
          else ebind (check_scene_abbr (fp_scene_abbr fp) (Some sec))
                 (\<lambda>ss. Inr (fp1\<lparr>fp_scene_abbr := ss\<rparr>)))"

text \<open>
  The grouping keys whose values are times are modelled; all three are in the list of
  \<^verbatim>\<open>available_group_keys\<close>, so \<^verbatim>\<open>_check_group_by_key\<close> accepts them.
\<close>

datatype group_key = By_start_time | By_end_time | By_production_time

definition key_name :: "group_key \<Rightarrow> string" where
  "key_name k =
     (case k of By_start_time \<Rightarrow> ''start_time'' | By_end_time \<Rightarrow> ''end_time''
      | By_production_time \<Rightarrow> ''production_time'')"

definition key_value :: "group_key \<Rightarrow> info_dict \<Rightarrow> error + datetime" where
  "key_value k info =
     (case (case k of By_start_time \<Rightarrow> start_time info | By_end_time \<Rightarrow> end_time info
            | By_production_time \<Rightarrow> production_time info) of
        None \<Rightarrow> Inl (KeyError (key_name k))
      | Some v \<Rightarrow> Inr v)"

section \<open>File systems, buckets and directories\<close>

definition get_filesystem :: "string option \<Rightarrow> error + string" where
  "get_filesystem protocol =
     (if protocol = Some ''s3'' then Inr ''s3''
      else if List.member [Some ''local'', Some ''file''] protocol then Inr ''file''
      else Inl (NotImplementedError ''Current available protocols are s3, local.''))"

definition get_bucket_prefix :: "string option \<Rightarrow> error + string" where
  "get_bucket_prefix protocol =
     (if protocol = Some ''s3'' then Inr ''s3://''
      else if protocol = Some ''file'' then Inr []
      else Inl (NotImplementedError ''Current available protocols are s3, local.''))"

definition get_bucket :: "string option \<Rightarrow> string \<Rightarrow> error + string" where
  "get_bucket protocol sat =
     (if protocol = Some ''s3'' then Inr (''s3://noaa-'' @ remove_hyphens sat)
      else Inl (KeyError ''protocol''))"

definition get_product_name :: "string \<Rightarrow> string \<Rightarrow> string \<Rightarrow> error + string" where
  "get_product_name level prd sec =
     (if level = ''L2'' \<and> sec \<noteq> ''FLDK''
      then Inl (ValueError ''L2 product level provides only FLDK sector.'' [])
      else
        (let sec' = (if sec = ''Landmark'' then ''Target'' else sec) in
         if prd = ''Rad'' then Inr (''AHI-'' @ level @ ''-'' @ sec')
         else if List.member [''CMSK'', ''CHGT'', ''CPHS''] prd
           then Inr (''AHI-'' @ level @ ''-'' @ sec' @ ''-Clouds'')
         else if List.member [''RRQPE''] prd
           then Inr (''AHI-'' @ level @ ''-'' @ sec' @ ''-RainfallRate'')
         else Inl (ValueError ''Retrieval not implemented for  product {product}.'' [])))"

definition get_product_dir ::
    "env \<Rightarrow> string \<Rightarrow> string \<Rightarrow> string \<Rightarrow> string \<Rightarrow> string option \<Rightarrow> string option \<Rightarrow>
     error + string" where
  "get_product_dir env sat level prd sec protocol base_dir =
     ebind (case base_dir of
              None \<Rightarrow> get_bucket protocol sat
            | Some b \<Rightarrow>
                (let bucket = path_join b (upper sat) in
                 if \<not> path_exists env bucket
                 then Inl (OSError ''The directory {bucket} does not exist.'')
                 else Inr bucket)) (\<lambda>bucket.
     ebind (get_product_name level prd sec) (\<lambda>product_name.
       Inr (path_join bucket product_name)))"

definition infer_satellite_from_path :: "string \<Rightarrow> error + string" where
  "infer_satellite_from_path path =
     (if list_ex (contains path) [''himawari8'', ''himawari-8'', ''H8'', ''H08'']
      then Inr ''himawari-8''
      else if list_ex (contains path) [''himawari9'', ''himawari-9'', ''H9'', ''H09'']
      then Inr ''himawari-9''
      else Inl (ValueError ''Unexpected HIMAWARI file path.'' []))"

text \<open>\<^verbatim>\<open>fpath.split("/", 3)[3]\<close>: what follows the third separator, if there are three.\<close>

fun after_separators :: "nat \<Rightarrow> string \<Rightarrow> string option" where
  "after_separators 0 s = Some s"
| "after_separators (Suc n) [] = None"
| "after_separators (Suc n) (c # cs) =
     (if c = CHR ''/'' then after_separators n cs else after_separators (Suc n) cs)"

definition switch_to_https_fpath :: "string \<Rightarrow> string \<Rightarrow> error + string" where
  "switch_to_https_fpath fpath protocol =
     ebind (infer_satellite_from_path fpath) (\<lambda>sat.
       if protocol \<noteq> ''s3'' then Inl (KeyError ''protocol'')
       else
         (let base_url = ''https://noaa-'' @ remove_hyphens sat @ ''.s3.amazonaws.com'' in
          case after_separators 3 fpath of
            None \<Rightarrow> Inl IndexError
          | Some rest \<Rightarrow> Inr (path_join base_url rest)))"

fun switch_to_https_fpaths :: "string list \<Rightarrow> string \<Rightarrow> error + string list" where
  "switch_to_https_fpaths [] protocol = Inr []"
| "switch_to_https_fpaths (fpath # fpaths) protocol =
     ebind (switch_to_https_fpath fpath protocol) (\<lambda>p.
     ebind (switch_to_https_fpaths fpaths protocol) (\<lambda>ps. Inr (p # ps)))"

definition add_nc_bytes :: "string list \<Rightarrow> string list" where
  "add_nc_bytes fpaths = map (\<lambda>fpath. fpath @ ''#mode=bytes'') fpaths"

section \<open>Grouping and the connection type\<close>

text \<open>
  What \<^verbatim>\<open>find_files\<close> returns: a list of paths, or a dictionary from key value to paths,
  kept as an association list in the order of the dictionary.
\<close>

datatype fpaths = Paths "string list" | Grouped "(datetime \<times> string list) list"

fun key_values :: "env \<Rightarrow> group_key \<Rightarrow> string list \<Rightarrow> error + datetime list" where
  "key_values env k [] = Inr []"
| "key_values env k (fpath # fpaths) =
     ebind (ebind (get_info_from_filepath env fpath) (key_value k)) (\<lambda>v.
     ebind (key_values env k fpaths) (\<lambda>vs. Inr (v # vs)))"

text \<open>
  \<^verbatim>\<open>_group_fpaths_by_key\<close>: the paths are sorted by key value, and cut where a new value
  starts (\<^verbatim>\<open>np.unique\<close> with \<^verbatim>\<open>return_index\<close>, \<^verbatim>\<open>np.split\<close>). The keys of the result are the
  distinct values in ascending order; the paths of one key are listed here in the order
  of the input.
\<close>

definition group_fpaths_by_key ::
    "env \<Rightarrow> string list \<Rightarrow> group_key \<Rightarrow> error + (datetime \<times> string list) list" where
  "group_fpaths_by_key env fpaths k =
     ebind (key_values env k fpaths) (\<lambda>list_key_values.
       Inr (map (\<lambda>v. (v, map snd (filter (\<lambda>(v', fpath). v' = v) (zip list_key_values fpaths))))
              (sort (remdups list_key_values))))"

fun switch_groups ::
    "(datetime \<times> string list) list \<Rightarrow> string \<Rightarrow> error + (datetime \<times> string list) list" where
  "switch_groups [] protocol = Inr []"
| "switch_groups ((tt, l_fpaths) # groups) protocol =
     ebind (switch_to_https_fpaths l_fpaths protocol) (\<lambda>ps.
     ebind (switch_groups groups protocol) (\<lambda>gs. Inr ((tt, ps) # gs)))"

text \<open>\<^verbatim>\<open>_set_connection_type\<close>; its \<^verbatim>\<open>satellite\<close> argument is not used.\<close>

definition set_connection_type ::
    "fpaths \<Rightarrow> string \<Rightarrow> string option \<Rightarrow> string option \<Rightarrow> error + fpaths" where
  "set_connection_type fps sat protocol connection_type =
     (case protocol of
        None \<Rightarrow> Inr fps
      | Some proto \<Rightarrow>
          if proto = ''file'' then Inr fps
          else if connection_type = Some ''bucket'' then Inr fps
          else if List.member [Some ''https'', Some ''nc_bytes''] connection_type then
            (case fps of
               Paths l \<Rightarrow>
                 ebind (switch_to_https_fpaths l proto) (\<lambda>l'.
                   Inr (Paths (if connection_type = Some ''nc_bytes'' then add_nc_bytes l'
                               else l')))
             | Grouped g \<Rightarrow>
                 ebind (switch_groups g proto) (\<lambda>g'.
                   Inr (Grouped (if connection_type = Some ''nc_bytes''
                                 then map (\<lambda>(tt, l_fpaths). (tt, add_nc_bytes l_fpaths)) g'
                                 else g'))))
          else Inl (NotImplementedError
                 ''bucket, https, nc_bytes are the only `connection_type` available.''))"

section \<open>Searching files\<close>

definition get_acquisition_max_timedelta :: "string option \<Rightarrow> error + timedelta" where
  "get_acquisition_max_timedelta sec =
     (if sec = Some ''Target'' then Inr (minutes 2 + seconds 30)
      else if sec = Some ''Japan'' then Inr (minutes 2 + seconds 30)
      else if sec = Some ''FLDK'' then Inr (minutes 10)
      else if sec = Some ''Landmark'' then Inr (seconds 30)
      else Inl (ValueError ''Unknown sector.'' []))"

text \<open>
  \<^verbatim>\<open>pd.date_range(start_time, end_time, freq="10min")\<close>: the times from the start in steps
  of ten minutes, as long as they do not pass the end.
\<close>

definition date_range :: "datetime \<Rightarrow> datetime \<Rightarrow> datetime list" where
  "date_range s e =
     (if e < s then []
      else map (\<lambda>k. s + int k * minutes 10) [0..<nat ((e - s) div minutes 10) + 1])"

text \<open>\<^verbatim>\<open>"/".join(parts)\<close>.\<close>

fun join_slash :: "string list \<Rightarrow> string" where
  "join_slash [] = []"
| "join_slash [x] = x"
| "join_slash (x # y # ys) = x @ ''/'' @ join_slash (y # ys)"

text \<open>
  The loop of \<^verbatim>\<open>find_files\<close> over the directories: list, put the bucket prefix back,
  filter (the filter parameters always hold the two times), and append.
\<close>

fun search_directories ::
    "env \<Rightarrow> string \<Rightarrow> string \<Rightarrow> string list \<Rightarrow> string \<Rightarrow> datetime \<Rightarrow> datetime \<Rightarrow>
     filter_parameters \<Rightarrow> error + string list" where
  "search_directories env fs bucket_prefix [] level qs qe fp = Inr []"
| "search_directories env fs bucket_prefix (glob_pattern # rest) level qs qe fp =
     ebind (filter_files env (map (\<lambda>fpath. bucket_prefix @ fpath) (glob env fs glob_pattern))
              level (Some qs) (Some qe) (fp_channels fp) (fp_scene_abbr fp)) (\<lambda>found.
     ebind (search_directories env fs bucket_prefix rest level qs qe fp) (\<lambda>more.
       Inr (found @ more)))"

definition find_files ::
    "env \<Rightarrow> string \<Rightarrow> string \<Rightarrow> string \<Rightarrow> datetime \<Rightarrow> datetime \<Rightarrow> string option \<Rightarrow>
     filter_parameters \<Rightarrow> group_key option \<Rightarrow> string option \<Rightarrow> string option \<Rightarrow>
     string option \<Rightarrow> error + fpaths" where
  "find_files env sat level prd query_start query_end sec fp group_by_key connection_type
     base_dir protocol =
     (if protocol = None \<and> base_dir = None
      then Inl (ValueError ''Specify 1 between `base_dir` and `protocol`'' [])
      else if base_dir \<noteq> None \<and> protocol \<noteq> None
              \<and> \<not> List.member [Some ''file'', Some ''local''] protocol
      then Inl (ValueError ''If base_dir is specified, protocol must be None.'' [])
      else
        ebind (check_protocol
                 (if base_dir \<noteq> None \<and> protocol = None then Some ''file'' else protocol))
          (\<lambda>protocol.
        ebind (check_base_dir env base_dir) (\<lambda>base_dir.
        ebind (check_connection_type connection_type protocol) (\<lambda>connection_type.
        ebind (check_satellite sat) (\<lambda>sat.
        ebind (check_product_level level) (\<lambda>level.
        ebind (check_product env prd (Some level)) (\<lambda>prd.
        ebind (check_sector env sec (Some prd)) (\<lambda>sec.
        ebind (check_start_end_time env query_start query_end) (\<lambda>(qs, qe).
        ebind (check_filter_parameters fp sec) (\<lambda>fp.
        ebind (get_filesystem protocol) (\<lambda>fs.
        ebind (get_bucket_prefix protocol) (\<lambda>bucket_prefix.
        ebind (get_product_dir env sat level prd sec protocol base_dir) (\<lambda>product_dir.
        ebind (get_fname_glob_pattern level) (\<lambda>fname_glob_pattern.
        ebind (search_directories env fs bucket_prefix
                 (map (\<lambda>dt. path_join
                               (path_join product_dir (join_slash (dt_to_year_month_day_hhmm env dt)))
                               fname_glob_pattern)
                    (date_range qs qe))
                 level qs qe fp) (\<lambda>list_fpaths.
        ebind (case group_by_key of
                 None \<Rightarrow> Inr (Paths list_fpaths)
               | Some k \<Rightarrow> ebind (group_fpaths_by_key env list_fpaths k) (\<lambda>g. Inr (Grouped g)))
          (\<lambda>fps.
        set_connection_type fps sat protocol connection_type))))))))))))))))"

text \<open>\<^verbatim>\<open>np.argmin\<close>: the index of the first occurrence of the minimum.\<close>

fun np_argmin :: "int list \<Rightarrow> nat" where
  "np_argmin [] = 0"
| "np_argmin [x] = 0"
| "np_argmin (x # y # ys) =
     (let i = np_argmin (y # ys) in if x \<le> (y # ys) ! i then 0 else Suc i)"

text \<open>
  The part of \<^verbatim>\<open>find_closest_start_time\<close> after the search, on the keys of the
  dictionary: sort them, fail if there is none, take the first that is nearest.
\<close>

definition select_closest :: "datetime \<Rightarrow> datetime list \<Rightarrow> error + datetime" where
  "select_closest time keys =
     (let list_datetime = sort keys in
      if length list_datetime = 0
      then Inl (ValueError
             ''No data available in previous and next {dt_str} minutes around {time}.'' [])
      else Inr (list_datetime ! np_argmin (map (\<lambda>k. \<bar>k - time\<bar>) list_datetime)))"

text \<open>The keys of a result of \<^verbatim>\<open>find_files\<close>; a list has no \<^verbatim>\<open>keys\<close> attribute.\<close>

definition dict_keys :: "fpaths \<Rightarrow> error + datetime list" where
  "dict_keys fps =
     (case fps of
        Grouped g \<Rightarrow> Inr (map fst g)
      | Paths l \<Rightarrow> Inl (AttributeError ''keys''))"

definition find_closest_start_time ::
    "env \<Rightarrow> datetime \<Rightarrow> string \<Rightarrow> string \<Rightarrow> string \<Rightarrow> string option \<Rightarrow> string option \<Rightarrow>
     string option \<Rightarrow> filter_parameters \<Rightarrow> error + datetime" where
  "find_closest_start_time env time sat level prd sec base_dir protocol fp =
     (let time = replace_microsecond0_second0 time in
      ebind (get_acquisition_max_timedelta sec) (\<lambda>timedelta.
      ebind (find_files env sat level prd (time - timedelta) (time + timedelta) sec fp
               (Some By_start_time) None base_dir protocol) (\<lambda>fpath_dict.
      ebind (dict_keys fpath_dict) (\<lambda>keys.
        select_closest time keys))))"

text \<open>\<^verbatim>\<open>np.diff\<close> and \<^verbatim>\<open>np.unique\<close> on a list.\<close>

fun np_diff :: "int list \<Rightarrow> int list" where
  "np_diff [] = []"
| "np_diff [x] = []"
| "np_diff (x # y # ys) = (y - x) # np_diff (y # ys)"

definition np_unique :: "int list \<Rightarrow> int list" where
  "np_unique xs = sort (remdups xs)"

definition check_interval_regularity :: "datetime list \<Rightarrow> error + unit" where
  "check_interval_regularity list_datetime =
     (if length list_datetime < 2 then Inr ()
      else
        (let list_timedelta = np_diff (sort list_datetime);
             list_unique_timedelta = np_unique list_timedelta
         in if length list_unique_timedelta \<noteq> 1
            then Inl (ValueError ''The time interval is not regular!'' [])
            else Inr ()))"

text \<open>
  \<^verbatim>\<open>xs[-N:]\<close> for an integer \<open>N\<close>: the last \<open>N\<close> elements when \<open>N\<close> is positive (all of
  them when there are fewer), everything when \<open>N\<close> is zero, and all but the first \<open>-N\<close>
  when \<open>N\<close> is negative.
\<close>

definition slice_from_minus :: "int \<Rightarrow> 'a list \<Rightarrow> 'a list" where
  "slice_from_minus N xs =
     (if N > 0 then drop (length xs - nat N) xs else drop (nat (- N)) xs)"

text \<open>
  The part of \<^verbatim>\<open>find_previous_files\<close> after the second search: the selection of the
  time steps from the dictionary, and the checks.
\<close>

definition select_previous ::
    "(datetime \<times> string list) list \<Rightarrow> datetime \<Rightarrow> int \<Rightarrow> bool \<Rightarrow> bool \<Rightarrow>
     error + (datetime \<times> string list) list" where
  "select_previous fpath_dict closest_time N include_start_time check_consistency =
     (let keys = sort (map fst fpath_dict) in
      if \<not> include_start_time \<and> \<not> List.member keys closest_time
      then Inl (ValueError ''list.remove(x): x not in list'' [])
      else
        (let list_datetime = sort (if include_start_time then keys else remove1 closest_time keys)
         in if length list_datetime = 0
            then Inl (ValueError ''No data available between {start_time} and {end_time}.'' [])
            else if int (length list_datetime) < N
            then Inl (ValueError
                   ''No {N} timesteps available between {start_time} and {end_time}.'' [])
            else
              (let selected = slice_from_minus N list_datetime;
                   result = map (\<lambda>tt. (tt, the (map_of fpath_dict tt))) selected
               in if check_consistency
                  then ebind (check_interval_regularity
                                (if include_start_time then selected
                                 else selected @ [closest_time]))
                         (\<lambda>u. Inr result)
                  else Inr result)))"

definition find_previous_files ::
    "env \<Rightarrow> datetime \<Rightarrow> int \<Rightarrow> string \<Rightarrow> string \<Rightarrow> string \<Rightarrow> string option \<Rightarrow>
     filter_parameters \<Rightarrow> string option \<Rightarrow> string option \<Rightarrow> string option \<Rightarrow> bool \<Rightarrow> bool \<Rightarrow>
     error + (datetime \<times> string list) list" where
  "find_previous_files env query_start N sat level prd sec fp connection_type base_dir protocol
     include_start_time check_consistency =
     ebind (check_sector env sec None) (\<lambda>sec.
     ebind (check_product_level level) (\<lambda>level.
       let start = replace_microsecond0_second0 query_start in
       ebind (find_closest_start_time env start sat level prd (Some sec) base_dir protocol fp)
         (\<lambda>closest_time.
           if check_consistency \<and> closest_time \<noteq> start
           then Inl (ValueError ''start_time={start_time} is not an actual start_time.'' [])
           else
             ebind (get_acquisition_max_timedelta (Some sec)) (\<lambda>timedelta.
             ebind (find_files env sat level prd (closest_time - timedelta * (N + 1)) closest_time
                      (Some sec) fp (Some By_start_time) connection_type base_dir protocol)
               (\<lambda>fps.
             ebind (case fps of
                      Grouped g \<Rightarrow> Inr g
                    | Paths l \<Rightarrow> Inl (AttributeError ''keys'')) (\<lambda>fpath_dict.
               select_previous fpath_dict closest_time N include_start_time
                 check_consistency))))))"

section \<open>Example inputs\<close>

text \<open>
  What the parser binds for an L1b radiance file of Himawari-8, channel B01, whose name
  carries the nominal time \<open>t\<close> and the given sector and observation token.
\<close>

definition parsed_l1b :: "datetime \<Rightarrow> string \<Rightarrow> info_dict" where
  "parsed_l1b t token =
     \<lparr>start_time = Some t, end_time = None, production_time = None,
      creation_time = None, sector_observation_number = Some token,
      platform_shortname = Some ''H08'', platform_fullname = None, channel = Some ''B01'',
      product = None, sensor = None, product_level = None, sector = None, scene_abbr = None,
      satellite = None\<rparr>"

text \<open>
  What the parser binds for an L2 cloud-mask file of Himawari-8 whose name carries a
  start, an end and a production time.
\<close>

definition parsed_l2 :: "datetime \<Rightarrow> datetime \<Rightarrow> datetime \<Rightarrow> info_dict" where
  "parsed_l2 s e c =
     \<lparr>start_time = Some s, end_time = Some e, production_time = Some c,
      creation_time = None, sector_observation_number = None,
      platform_shortname = Some ''h08'', platform_fullname = None, channel = None,
      product = Some ''CMSK'', sensor = None, product_level = None, sector = None,
      scene_abbr = None, satellite = None\<rparr>"

text \<open>
  An example store for the first of January 2021, the midnight from which the example
  times count. A directory is named after the time rounded down to ten minutes, as the
  layout of the bucket has it. The store is given by the full-disk files it holds, each
  as the pair of the directory time and the nominal time in the file name; the listing
  returns paths without the bucket prefix, as the object store does.
\<close>

definition two_digits :: "int \<Rightarrow> string" where
  "two_digits n = [''0123456789'' ! nat (n div 10 mod 10), ''0123456789'' ! nat (n mod 10)]"

definition hhmm :: "datetime \<Rightarrow> string" where
  "hhmm t = two_digits (t div minutes 60 mod 24) @ two_digits (t div minutes 1 mod 60)"

definition example_dir :: "datetime \<Rightarrow> string list" where
  "example_dir t = [''2021'', ''01'', ''01'', hhmm (t - t mod minutes 10)]"

definition fldk_name :: "datetime \<Rightarrow> string" where
  "fldk_name t = ''HS_H08_20210101_'' @ hhmm t @ ''_B01_FLDK_R10_S0110.DAT.bz2''"

definition fldk_path :: "datetime \<Rightarrow> datetime \<Rightarrow> string" where
  "fldk_path dir t =
     ''noaa-himawari8/AHI-L1b-FLDK/2021/01/01/'' @ hhmm dir @ ''/'' @ fldk_name t"

definition cmsk_name :: string where
  "cmsk_name = ''AHI-CMSK_v1r1_h08_s202101011010000_e202101011000000_c202101011020000.nc''"

definition example_env :: "(datetime \<times> datetime) list \<Rightarrow> env" where
  "example_env files =
     \<lparr>PRODUCTS = [(''L1b'', [''Rad'']), (''L2'', [''CMSK'', ''CHGT'', ''CPHS'', ''RRQPE''])],
      AHI_L2_SECTOR_EXCEPTIONS = [],
      parse = (\<lambda>level prd fname.
         if fname = cmsk_name
         then Inr (parsed_l2 (minutes 610) (minutes 600) (minutes 620))
         else (case find (\<lambda>(dir, t). fldk_name t = fname) files of
                 None \<Rightarrow> Inl (ValueError ''String does not match pattern.'' [])
               | Some (dir, t) \<Rightarrow> Inr (parsed_l1b t ''FLDK''))),
      dt_to_year_month_day_hhmm = example_dir,
      glob = (\<lambda>fs pattern.
         map (\<lambda>(dir, t). fldk_path dir t)
           (filter (\<lambda>(dir, t).
               pattern = ''s3://noaa-himawari8/AHI-L1b-FLDK/2021/01/01/'' @ hhmm dir @ ''/*.bz2*'')
             files)),
      utcnow = minutes 1440,
      path_exists = (\<lambda>p. False),
      path_isdir = (\<lambda>p. False)\<rparr>"

definition no_filter :: filter_parameters where
  "no_filter = \<lparr>fp_channels = None, fp_scene_abbr = None\<rparr>"

text \<open>The full-disk file of 10:00, in its directory, as \<^verbatim>\<open>find_files\<close> lists it.\<close>

definition file_1000 :: string where
  "file_1000 = ''s3://'' @ fldk_path (minutes 600) (minutes 600)"

text \<open>A store holding the full-disk files of 10:00 and 10:10.\<close>

definition files_1000_1010 :: "(datetime \<times> datetime) list" where
  "files_1000_1010 = [(minutes 600, minutes 600), (minutes 610, minutes 610)]"


section \<open>Auxiliary facts\<close>

lemma ebind_Inr_iff: "ebind m f = Inr y \<longleftrightarrow> (\<exists>x. m = Inr x \<and> f x = Inr y)"
  by (cases m) (simp_all add: ebind_def)

lemma ebind_Inr [simp]: "ebind (Inr x) f = f x"
  by (simp add: ebind_def)

lemma ebind_Inl [simp]: "ebind (Inl e) f = Inl e"
  by (simp add: ebind_def)

lemma length_np_diff: "length (np_diff xs) = length xs - 1"
  by (induction xs rule: np_diff.induct) simp_all

lemma np_diff_nth: "Suc i < length xs \<Longrightarrow> np_diff xs ! i = xs ! Suc i - xs ! i"
proof (induction xs arbitrary: i rule: np_diff.induct)
  case (3 x y ys)
  then show ?case by (cases i) simp_all
qed simp_all

lemma length_np_unique: "length (np_unique d) = card (set d)"
  by (simp add: np_unique_def length_remdups_card_conv)

lemma card_set_neq_1:
  "card (set d) \<noteq> 1 \<longleftrightarrow> d = [] \<or> (\<exists>i j. i < length d \<and> j < length d \<and> d ! i \<noteq> d ! j)"
proof (cases d)
  case Nil
  then show ?thesis by simp
next
  case (Cons a as)
  show ?thesis
  proof
    assume h: "card (set d) \<noteq> 1"
    have "set d \<noteq> {a}" using h by auto
    then obtain b where b: "b \<in> set d" "b \<noteq> a" using Cons by auto
    then obtain j where j: "j < length d" "d ! j = b" by (auto simp: in_set_conv_nth)
    have "0 < length d \<and> d ! 0 = a" using Cons by simp
    then show "d = [] \<or> (\<exists>i j. i < length d \<and> j < length d \<and> d ! i \<noteq> d ! j)"
      using j b by metis
  next
    assume "d = [] \<or> (\<exists>i j. i < length d \<and> j < length d \<and> d ! i \<noteq> d ! j)"
    then obtain i j where ij: "i < length d" "j < length d" "d ! i \<noteq> d ! j"
      using Cons by auto
    show "card (set d) \<noteq> 1"
    proof
      assume "card (set d) = 1"
      then obtain x where "set d = {x}" by (auto simp: card_1_singleton_iff)
      then have "d ! i = x" "d ! j = x" using ij nth_mem by blast+
      then show False using ij by simp
    qed
  qed
qed

lemma irregular_iff_card:
  "check_interval_regularity xs = Inl (ValueError ''The time interval is not regular!'' [])
     \<longleftrightarrow> 2 \<le> length xs \<and> card (set (np_diff (sort xs))) \<noteq> 1"
  unfolding check_interval_regularity_def Let_def length_np_unique
  by (cases "length xs < 2") simp_all

lemma regular_or_error:
  "check_interval_regularity xs \<noteq> Inl (ValueError ''The time interval is not regular!'' [])
      \<longleftrightarrow> check_interval_regularity xs = Inr ()"
  unfolding check_interval_regularity_def Let_def
  by (cases "length xs < 2"; cases "length (np_unique (np_diff (sort xs))) = 1") simp_all

lemma diffs_differ_iff:
  assumes "2 \<le> length xs"
  shows "card (set (np_diff xs)) \<noteq> 1 \<longleftrightarrow>
     (\<exists>i j. Suc i < length xs \<and> Suc j < length xs \<and> xs ! Suc i - xs ! i \<noteq> xs ! Suc j - xs ! j)"
proof -
  let ?d = "np_diff xs"
  have len: "length ?d = length xs - 1" by (rule length_np_diff)
  have idx: "\<And>i. i < length ?d \<longleftrightarrow> Suc i < length xs" using len by auto
  have ne: "?d \<noteq> []" using assms len by (cases ?d) simp_all
  have "card (set ?d) \<noteq> 1 \<longleftrightarrow> (\<exists>i j. i < length ?d \<and> j < length ?d \<and> ?d ! i \<noteq> ?d ! j)"
    using ne card_set_neq_1 [of ?d] by simp
  also have "\<dots> \<longleftrightarrow> (\<exists>i j. Suc i < length xs \<and> Suc j < length xs \<and> ?d ! i \<noteq> ?d ! j)"
    unfolding idx ..
  also have "\<dots> \<longleftrightarrow> (\<exists>i j. Suc i < length xs \<and> Suc j < length xs
        \<and> xs ! Suc i - xs ! i \<noteq> xs ! Suc j - xs ! j)"
    using np_diff_nth [of _ xs] by metis
  finally show ?thesis .
qed

lemma regularity_examples:
  "check_interval_regularity [minutes 600, minutes 610, minutes 620] = Inr ()
   \<and> check_interval_regularity [minutes 600, minutes 610, minutes 625]
       = Inl (ValueError ''The time interval is not regular!'' [])"
  by code_simp

lemma np_argmin_less: "xs \<noteq> [] \<Longrightarrow> np_argmin xs < length xs"
  by (induction xs rule: np_argmin.induct) (simp_all add: Let_def)

lemma np_argmin_le: "j < length xs \<Longrightarrow> xs ! np_argmin xs \<le> xs ! j"
proof (induction xs arbitrary: j rule: np_argmin.induct)
  case 1
  then show ?case by simp
next
  case (2 x)
  then show ?case by simp
next
  case (3 x y ys)
  let ?i = "np_argmin (y # ys)"
  show ?case
  proof (cases j)
    case 0
    then show ?thesis by (simp add: Let_def)
  next
    case (Suc j')
    then have "j' < length (y # ys)" using "3.prems" by simp
    then have "(y # ys) ! ?i \<le> (y # ys) ! j'" by (rule "3.IH")
    then show ?thesis using Suc by (simp add: Let_def)
  qed
qed

lemma np_argmin_first: "j < np_argmin xs \<Longrightarrow> xs ! np_argmin xs < xs ! j"
proof (induction xs arbitrary: j rule: np_argmin.induct)
  case 1
  then show ?case by simp
next
  case (2 x)
  then show ?case by simp
next
  case (3 x y ys)
  let ?i = "np_argmin (y # ys)"
  from "3.prems" have nz: "\<not> x \<le> (y # ys) ! ?i"
    by (auto simp: Let_def split: if_splits)
  then have am: "np_argmin (x # y # ys) = Suc ?i" by (simp add: Let_def)
  show ?case
  proof (cases j)
    case 0
    then show ?thesis using nz am by simp
  next
    case (Suc j')
    then have "j' < ?i" using "3.prems" am by simp
    then have "(y # ys) ! ?i < (y # ys) ! j'" by (rule "3.IH")
    then show ?thesis using Suc am by simp
  qed
qed

lemma select_closest_Inr:
  assumes "select_closest time keys = Inr t"
  shows "\<exists>i. i < length (sort keys) \<and> t = sort keys ! i
            \<and> (\<forall>j < length (sort keys). \<bar>t - time\<bar> \<le> \<bar>sort keys ! j - time\<bar>)
            \<and> (\<forall>j < i. \<bar>t - time\<bar> < \<bar>sort keys ! j - time\<bar>)"
proof -
  let ?l = "sort keys"
  let ?d = "map (\<lambda>k. \<bar>k - time\<bar>) ?l"
  let ?i = "np_argmin ?d"
  from assms have ne: "?l \<noteq> []" and t: "t = ?l ! ?i"
    by (auto simp: select_closest_def Let_def split: if_splits)
  have i: "?i < length ?l" using np_argmin_less [of ?d] ne by simp
  have le: "\<forall>j < length ?l. \<bar>t - time\<bar> \<le> \<bar>?l ! j - time\<bar>"
  proof (intro allI impI)
    fix j assume j: "j < length ?l"
    then have "?d ! ?i \<le> ?d ! j" using np_argmin_le [of j ?d] by simp
    then show "\<bar>t - time\<bar> \<le> \<bar>?l ! j - time\<bar>" using i j t by simp
  qed
  have first: "\<forall>j < ?i. \<bar>t - time\<bar> < \<bar>?l ! j - time\<bar>"
  proof (intro allI impI)
    fix j assume j: "j < ?i"
    then have "?d ! ?i < ?d ! j" by (rule np_argmin_first)
    then show "\<bar>t - time\<bar> < \<bar>?l ! j - time\<bar>" using i j t by simp
  qed
  show ?thesis using i t le first by blast
qed

lemma first_minimum_in_sorted:
  fixes l :: "int list"
  assumes "sorted l" and "i < length l"
    and "\<forall>j < length l. f (l ! i) \<le> (f (l ! j) :: int)"
    and "\<forall>j < i. f (l ! i) < f (l ! j)"
    and "k \<in> set l"
  shows "f (l ! i) \<le> f k" and "f k = f (l ! i) \<Longrightarrow> l ! i \<le> k"
proof -
  from \<open>k \<in> set l\<close> obtain j where j: "j < length l" "l ! j = k"
    by (auto simp: in_set_conv_nth)
  show "f (l ! i) \<le> f k" using assms(3) j by auto
  assume eq: "f k = f (l ! i)"
  show "l ! i \<le> k"
  proof (cases "j < i")
    case True
    then show ?thesis using assms(4) j eq by auto
  next
    case False
    then have "i \<le> j" by simp
    then have "l ! i \<le> l ! j" using j(1) assms(1) by (simp add: sorted_nth_mono)
    then show ?thesis using j by simp
  qed
qed

lemma select_closest_props:
  assumes "select_closest time keys = Inr t"
  shows "t \<in> set keys"
    and "\<And>k. k \<in> set keys \<Longrightarrow> \<bar>t - time\<bar> \<le> \<bar>k - time\<bar>"
    and "\<And>k. k \<in> set keys \<Longrightarrow> \<bar>k - time\<bar> = \<bar>t - time\<bar> \<Longrightarrow> t \<le> k"
proof -
  define l where "l = sort keys"
  have sl: "sorted l" and set_l: "set l = set keys" by (simp_all add: l_def)
  from select_closest_Inr [OF assms] obtain i where i: "i < length l" and t: "t = l ! i"
    and le: "\<forall>j < length l. \<bar>l ! i - time\<bar> \<le> \<bar>l ! j - time\<bar>"
    and first: "\<forall>j < i. \<bar>l ! i - time\<bar> < \<bar>l ! j - time\<bar>"
    unfolding l_def by blast
  have "l ! i \<in> set l" using i by (rule nth_mem)
  then show "t \<in> set keys" using t set_l by simp
  show "\<And>k. k \<in> set keys \<Longrightarrow> \<bar>t - time\<bar> \<le> \<bar>k - time\<bar>"
    using first_minimum_in_sorted(1) [OF sl i le first] set_l t by blast
  show "\<And>k. k \<in> set keys \<Longrightarrow> \<bar>k - time\<bar> = \<bar>t - time\<bar> \<Longrightarrow> t \<le> k"
    using first_minimum_in_sorted(2) [OF sl i le first] set_l t by blast
qed

lemma select_closest_nonempty: "keys \<noteq> [] \<Longrightarrow> \<exists>t. select_closest time keys = Inr t"
  by (cases keys) (simp_all add: select_closest_def Let_def)

lemma select_closest_empty:
  "select_closest time [] = Inl (ValueError
     ''No data available in previous and next {dt_str} minutes around {time}.'' [])"
  by (simp add: select_closest_def)


lemma dict_keys_Inr: "dict_keys fps = Inr keys \<longleftrightarrow> (\<exists>g. fps = Grouped g \<and> keys = map fst g)"
  by (cases fps) (auto simp: dict_keys_def)

lemma find_closest_start_time_Inr:
  assumes "find_closest_start_time env time sat level prd sec base_dir protocol fp = Inr t"
  shows "\<exists>cad g. get_acquisition_max_timedelta sec = Inr cad
     \<and> find_files env sat level prd (replace_microsecond0_second0 time - cad)
          (replace_microsecond0_second0 time + cad) sec fp (Some By_start_time) None
          base_dir protocol = Inr (Grouped g)
     \<and> select_closest (replace_microsecond0_second0 time) (map fst g) = Inr t"
  using assms unfolding find_closest_start_time_def Let_def ebind_Inr_iff dict_keys_Inr
  by blast

lemma find_closest_start_time_eq:
  assumes "get_acquisition_max_timedelta sec = Inr cad"
    and "find_files env sat level prd (replace_microsecond0_second0 time - cad)
          (replace_microsecond0_second0 time + cad) sec fp (Some By_start_time) None
          base_dir protocol = Inr (Grouped g)"
  shows "find_closest_start_time env time sat level prd sec base_dir protocol fp
     = select_closest (replace_microsecond0_second0 time) (map fst g)"
  using assms by (simp add: find_closest_start_time_def Let_def ebind_def dict_keys_def)

lemma info_file_1000:
  "map_sum id (\<lambda>d. (start_time d, end_time d))
     (get_info_from_filepath (example_env [(minutes 600, minutes 600)]) file_1000)
   = Inr (Some (minutes 600), Some (minutes 610))"
  by code_simp

lemma closest_of_100530:
  "find_closest_start_time (example_env files_1000_1010) (minutes 605 + seconds 30)
     ''H8'' ''L1b'' ''Rad'' (Some ''FLDK'') None (Some ''s3'') no_filter = Inr (minutes 600)"
  by code_simp


lemma search_around_100530:
  "find_files (example_env files_1000_1010) ''H8'' ''L1b'' ''Rad''
     (minutes 605 + seconds 30 - minutes 10) (minutes 605 + seconds 30 + minutes 10)
     (Some ''FLDK'') no_filter (Some By_start_time) None None (Some ''s3'')
   = Inr (Grouped [(minutes 600, [''s3://'' @ fldk_path (minutes 600) (minutes 600)]),
                   (minutes 610, [''s3://'' @ fldk_path (minutes 610) (minutes 610)])])"
  by code_simp

lemma search_empty_store:
  "find_files (example_env []) ''H8'' ''L1b'' ''Rad'' (minutes 595) (minutes 615)
     (Some ''FLDK'') no_filter (Some By_start_time) None None (Some ''s3'') = Inr (Grouped [])"
  by code_simp















lemma derive_satellite_fields:
  assumes "derive_satellite d = Inr d'"
  shows "start_time d' = start_time d \<and> end_time d' = end_time d \<and> sector d' = sector d"
proof -
  from assms obtain v where "d' = d\<lparr>satellite := v\<rparr>"
    unfolding derive_satellite_def
    by (cases "platform_shortname d"; cases "platform_fullname d")
       (auto split: if_splits)
  then show ?thesis by simp
qed

lemma homogenize_product_fields:
  assumes "homogenize_product inferred d = Inr d'"
  shows "\<exists>v. d' = d\<lparr>product := v\<rparr>"
proof (cases "product_level d = Some ''L2''")
  case False
  then show ?thesis using assms unfolding homogenize_product_def by (simp only: if_False) blast
next
  case True
  show ?thesis
  proof (cases "product d")
    case None
    then show ?thesis using assms True unfolding homogenize_product_def
      by (simp only: if_True option.case) simp
  next
    case (Some p)
    then show ?thesis using assms True unfolding homogenize_product_def
      by (simp only: if_True option.case split: if_splits) blast+
  qed
qed

lemma default_sector_fields:
  "start_time (default_sector d) = start_time d \<and> end_time (default_sector d) = end_time d
   \<and> sector (default_sector d) = (case sector d of None \<Rightarrow> Some ''FLDK'' | Some s \<Rightarrow> Some s)"
  by (cases "sector d") (simp_all add: default_sector_def)

lemma default_end_time_fields:
  assumes "default_end_time d = Inr d'"
  shows "start_time d' = start_time d \<and> sector d' = sector d \<and> end_time d' \<noteq> None
    \<and> end_time d' = (case end_time d of Some e \<Rightarrow> Some e
                      | None \<Rightarrow> map_option (\<lambda>s. s + minutes 10) (start_time d))"
proof (cases "end_time d")
  case (Some e)
  then have "d' = d" using assms by (simp add: default_end_time_def)
  then show ?thesis using Some by simp
next
  case None
  show ?thesis
  proof (cases "start_time d")
    case n: None
    then show ?thesis using assms None by (simp add: default_end_time_def)
  next
    case (Some t)
    then have "d' = d\<lparr>end_time := Some (t + minutes 10)\<rparr>"
      using assms None by (simp add: default_end_time_def)
    then show ?thesis using None Some by simp
  qed
qed

lemma apply_token_none:
  assumes "sector_observation_number d = None"
  shows "apply_sector_observation_number d = Inr d"
  using assms by (simp add: apply_sector_observation_number_def)

lemma apply_token_fldk:
  assumes "sector_observation_number d = Some token" and "contains token ''FLDK''"
  shows "apply_sector_observation_number d
     = Inr (d\<lparr>sector := Some ''FLDK'', scene_abbr := Some (Scene ''F'')\<rparr>)"
proof -
  have s: "separate_sector_observation_number token = Inr (''FLDK'', Scene ''F'', None)"
    using assms(2) by (simp add: separate_sector_observation_number_def)
  have n1: "\<not> (''FLDK'' = ''Japan'' \<or> ''FLDK'' = ''Target'' \<and> Scene ''F'' = Scene ''R3'')"
    by simp
  have n2: "\<not> (''FLDK'' = ''Landmark'' \<and> List.member [Scene ''R4'', Scene ''R5''] (Scene ''F''))"
    by simp
  show ?thesis
    unfolding apply_sector_observation_number_def assms(1) option.case s
    by (simp only: ebind_def sum.case prod.case Let_def n1 n2 if_False)
qed

lemma info_from_parsed_steps:
  assumes "info_from_parsed level inferred parsed = Inr info"
  shows "\<exists>d1 d2. apply_sector_observation_number
             (truncate_times (parsed\<lparr>sensor := Some ''AHI'', product_level := Some level\<rparr>))
           = Inr d1
         \<and> default_end_time d1 = Inr d2
         \<and> start_time info = start_time d2 \<and> end_time info = end_time d2
         \<and> sector info = (case sector d2 of None \<Rightarrow> Some ''FLDK'' | Some s \<Rightarrow> Some s)"
proof -
  from assms obtain d1 d2 d3 where
    a: "apply_sector_observation_number
          (truncate_times (parsed\<lparr>sensor := Some ''AHI'', product_level := Some level\<rparr>))
        = Inr d1"
    and b: "default_end_time d1 = Inr d2"
    and c: "homogenize_product inferred (default_sector d2) = Inr d3"
    and d: "derive_satellite d3 = Inr info"
    unfolding info_from_parsed_def Let_def ebind_Inr_iff by blast
  from homogenize_product_fields [OF c] obtain v where v: "d3 = (default_sector d2)\<lparr>product := v\<rparr>"
    by blast
  have "start_time info = start_time d3" "end_time info = end_time d3" "sector info = sector d3"
    using derive_satellite_fields [OF d] by simp_all
  moreover have "start_time d3 = start_time d2" "end_time d3 = end_time d2"
    "sector d3 = (case sector d2 of None \<Rightarrow> Some ''FLDK'' | Some s \<Rightarrow> Some s)"
    using v default_sector_fields [of d2] by simp_all
  ultimately show ?thesis using a b by simp
qed

lemma info_from_parsed_end_time:
  assumes "info_from_parsed level inferred parsed = Inr info"
  shows "end_time info \<noteq> None"
proof -
  from info_from_parsed_steps [OF assms] obtain d1 d2 where
    b: "default_end_time d1 = Inr d2" and e: "end_time info = end_time d2" by blast
  have "end_time d2 \<noteq> None" using default_end_time_fields [OF b] by blast
  then show ?thesis unfolding e .
qed

lemma info_from_parsed_unshifted:
  assumes "info_from_parsed level inferred parsed = Inr info"
    and "sector_observation_number parsed = None
         \<or> (\<exists>token. sector_observation_number parsed = Some token \<and> contains token ''FLDK'')"
  shows "start_time info = map_option replace_microsecond0 (start_time parsed)"
    and "end_time info = (case end_time parsed of
                            Some e \<Rightarrow> Some (replace_microsecond0 e)
                          | None \<Rightarrow> map_option (\<lambda>s. s + minutes 10) (start_time info))"
    and "sector parsed = None \<Longrightarrow> sector info = Some ''FLDK''"
proof -
  define d0 where "d0 = truncate_times (parsed\<lparr>sensor := Some ''AHI'', product_level := Some level\<rparr>)"
  from info_from_parsed_steps [OF assms(1)] obtain d1 d2 where
    a: "apply_sector_observation_number d0 = Inr d1"
    and b: "default_end_time d1 = Inr d2"
    and i: "start_time info = start_time d2" "end_time info = end_time d2"
      "sector info = (case sector d2 of None \<Rightarrow> Some ''FLDK'' | Some s \<Rightarrow> Some s)"
    unfolding d0_def by blast
  have d0: "start_time d0 = map_option replace_microsecond0 (start_time parsed)"
    "end_time d0 = map_option replace_microsecond0 (end_time parsed)"
    "sector d0 = sector parsed"
    "sector_observation_number d0 = sector_observation_number parsed"
    by (simp_all add: d0_def truncate_times_def)
  have d1: "start_time d1 = start_time d0" "end_time d1 = end_time d0"
    "sector parsed = None \<Longrightarrow> sector d1 = None \<or> sector d1 = Some ''FLDK''"
  proof -
    have "d1 = d0 \<or> d1 = d0\<lparr>sector := Some ''FLDK'', scene_abbr := Some (Scene ''F'')\<rparr>"
    proof (cases "sector_observation_number parsed")
      case None
      then show ?thesis using a d0(4) apply_token_none [of d0] by simp
    next
      case (Some token)
      then have "contains token ''FLDK''" using assms(2) by simp
      then show ?thesis using a d0(4) Some apply_token_fldk [of d0 token] by simp
    qed
    then show "start_time d1 = start_time d0" "end_time d1 = end_time d0"
      "sector parsed = None \<Longrightarrow> sector d1 = None \<or> sector d1 = Some ''FLDK''"
      using d0(3) by auto
  qed
  note f2 = default_end_time_fields [OF b]
  show "start_time info = map_option replace_microsecond0 (start_time parsed)"
    using i(1) f2 d1(1) d0(1) by simp
  show "end_time info = (case end_time parsed of
                            Some e \<Rightarrow> Some (replace_microsecond0 e)
                          | None \<Rightarrow> map_option (\<lambda>s. s + minutes 10) (start_time info))"
    using i(1,2) f2 d1(1,2) d0(1,2) by (cases "end_time parsed") simp_all
  show "sector parsed = None \<Longrightarrow> sector info = Some ''FLDK''"
    using i(3) f2 d1(3) by auto
qed

lemma replace_microsecond0_mono: "a \<le> b \<Longrightarrow> replace_microsecond0 a \<le> replace_microsecond0 b"
proof -
  assume ab: "a \<le> b"
  have "replace_microsecond0 a = (a div 1000000) * 1000000"
    and "replace_microsecond0 b = (b div 1000000) * 1000000"
    unfolding replace_microsecond0_def by (simp_all add: minus_mod_eq_div_mult)
  moreover have "a div 1000000 \<le> b div 1000000" using ab by (simp add: zdiv_mono1)
  ultimately show ?thesis by simp
qed

lemma get_info_from_filename_Inr:
  assumes "get_info_from_filename env fname = Inr info"
  shows "\<exists>level inferred parsed. infer_product_level fname = Inr level
    \<and> infer_product fname = Inr inferred \<and> parse env level inferred fname = Inr parsed
    \<and> info_from_parsed level inferred parsed = Inr info"
  using assms unfolding get_info_from_filename_def ebind_Inr_iff by blast

lemma info_fldk_1000:
  "map_sum id (\<lambda>d. (start_time d, end_time d, sector d))
     (get_info_from_filename (example_env [(minutes 600, minutes 600)]) (fldk_name (minutes 600)))
   = Inr (Some (minutes 600), Some (minutes 610), Some ''FLDK'')"
  by code_simp

lemma parse_fldk_1000:
  "parse (example_env [(minutes 600, minutes 600)]) level inferred (fldk_name (minutes 600))
   = Inr (parsed_l1b (minutes 600) ''FLDK'')"
proof -
  have "fldk_name (minutes 600) \<noteq> cmsk_name" by code_simp
  then show ?thesis by (simp add: example_env_def)
qed

section \<open>Properties\<close>

text \<open>
  C1. The claim: a \<^verbatim>\<open>JP\<close> token with observation index \<open>n\<close> gives sector Japan, scenes
  R1 and R2, a start shifted by \<open>(n - 1)\<close> times 2 min 30 s and an end 2 min 30 s after
  the shifted start; an \<^verbatim>\<open>R3\<close> token gives sector Target with the same arithmetic; \<^verbatim>\<open>R4\<close>
  and \<^verbatim>\<open>R5\<close> give Landmark at 30 s. The code, evaluated on the tokens \<^verbatim>\<open>JP02\<close>, \<^verbatim>\<open>R302\<close>
  and \<^verbatim>\<open>R403\<close> of a file with nominal time 10:00: the \<^verbatim>\<open>JP\<close> token yields the sector
  \<^verbatim>\<open>"JP"\<close>, which the test \<^verbatim>\<open>sector == "Japan"\<close> never meets, so the start stays at 10:00
  and the end is the ten-minute default; for \<^verbatim>\<open>R302\<close> the start is 10:02:30 and the end is
  \<open>n\<close> cadences after it, 10:07:30 instead of 10:05:00; for \<^verbatim>\<open>R403\<close> the start is 10:01:00
  and the end 10:02:30 instead of 10:01:30.
\<close>

theorem sector_token_JP02_R302_R403:
  "map_sum id (\<lambda>d. (sector d, scene_abbr d, start_time d, end_time d))
     (info_from_parsed ''L1b'' ''Rad'' (parsed_l1b (minutes 600) ''JP02''))
   = Inr (Some ''JP'', Some (Scenes [''R1'', ''R2'']), Some (minutes 600), Some (minutes 610))
   \<and> map_sum id (\<lambda>d. (sector d, scene_abbr d, start_time d, end_time d))
     (info_from_parsed ''L1b'' ''Rad'' (parsed_l1b (minutes 600) ''R302''))
   = Inr (Some ''Target'', Some (Scene ''R3''), Some (minutes 600 + seconds 150),
          Some (minutes 600 + seconds 450))
   \<and> map_sum id (\<lambda>d. (sector d, scene_abbr d, start_time d, end_time d))
     (info_from_parsed ''L1b'' ''Rad'' (parsed_l1b (minutes 600) ''R403''))
   = Inr (Some ''Landmark'', Some (Scene ''R4''), Some (minutes 600 + seconds 60),
          Some (minutes 600 + seconds 150))"
  by code_simp

text \<open>
  C5. The claim: every alias listed under a canonical key normalises to that key. The
  code: \<^verbatim>\<open>"H08"\<close> is listed under \<^verbatim>\<open>himawari-9\<close> (and under \<^verbatim>\<open>himawari-8\<close>), and normalises
  to \<^verbatim>\<open>himawari-8\<close>, while \<^verbatim>\<open>"H09"\<close> is rejected; \<^verbatim>\<open>"B16"\<close> is listed under \<^verbatim>\<open>B15\<close> and
  normalises to \<^verbatim>\<open>B16\<close>.
\<close>

theorem alias_H08_and_B16_leave_their_key:
  "map_of satellites ''himawari-9'' = Some [''H9'', ''H08'', ''HIMAWARI-9'', ''HIMAWARI9'']
   \<and> check_satellite ''H08'' = Inr ''himawari-8''
   \<and> check_satellite ''H09''
       = Inl (ValueError ''Available satellite: {valid_satellite_key}''
                [''himawari-8'', ''himawari-9''])
   \<and> map_of channels ''B15''
       = Some [''B16'', ''C15'', ''15'', ''12.3'', ''12.4'', ''DIRTY LONGWAVE WINDOW'',
               ''DIRTY IR'']
   \<and> check_channel ''B16'' = Inr ''B16''"
  by code_simp

text \<open>
  C6. The claim: the wildcard is \<^verbatim>\<open>*.bz2*\<close> for L1b and \<^verbatim>\<open>*.nc*\<close> for L2. The code returns
  the first, and for L2 it raises \<^verbatim>\<open>UnboundLocalError\<close>: the branch compares where it
  should assign.
\<close>

theorem get_fname_glob_pattern_L2_raises:
  "get_fname_glob_pattern ''L1b'' = Inr ''*.bz2*''
   \<and> get_fname_glob_pattern ''L2'' = Inl (UnboundLocalError ''fname_pattern'')"
  by (simp add: get_fname_glob_pattern_def)

text \<open>
  C8. The regularity check raises its error exactly when the list has at least two time
  stamps and two consecutive differences of the sorted list differ; otherwise it returns.
  The list 10:00, 10:10, 10:20 passes and 10:00, 10:10, 10:25 raises.
\<close>

theorem check_interval_regularity_iff:
  "(check_interval_regularity xs = Inl (ValueError ''The time interval is not regular!'' [])
      \<longleftrightarrow> 2 \<le> length xs
          \<and> (\<exists>i j. Suc i < length xs \<and> Suc j < length xs
                 \<and> sort xs ! Suc i - sort xs ! i \<noteq> sort xs ! Suc j - sort xs ! j))
   \<and> (check_interval_regularity xs \<noteq> Inl (ValueError ''The time interval is not regular!'' [])
      \<longleftrightarrow> check_interval_regularity xs = Inr ())
   \<and> check_interval_regularity [minutes 600, minutes 610, minutes 620] = Inr ()
   \<and> check_interval_regularity [minutes 600, minutes 610, minutes 625]
       = Inl (ValueError ''The time interval is not regular!'' [])"
proof (intro conjI)
  show "check_interval_regularity xs = Inl (ValueError ''The time interval is not regular!'' [])
      \<longleftrightarrow> 2 \<le> length xs
          \<and> (\<exists>i j. Suc i < length xs \<and> Suc j < length xs
                 \<and> sort xs ! Suc i - sort xs ! i \<noteq> sort xs ! Suc j - sort xs ! j)"
  proof (cases "2 \<le> length xs")
    case True
    then have "2 \<le> length (sort xs)" by simp
    from diffs_differ_iff [OF this] show ?thesis
      unfolding irregular_iff_card by simp
  next
    case False
    then show ?thesis unfolding irregular_iff_card by simp
  qed
  show "check_interval_regularity xs \<noteq> Inl (ValueError ''The time interval is not regular!'' [])
      \<longleftrightarrow> check_interval_regularity xs = Inr ()"
    by (rule regular_or_error)
  show "check_interval_regularity [minutes 600, minutes 610, minutes 620] = Inr ()"
    using regularity_examples by (rule conjunct1)
  show "check_interval_regularity [minutes 600, minutes 610, minutes 625]
       = Inl (ValueError ''The time interval is not regular!'' [])"
    using regularity_examples by (rule conjunct2)
qed

text \<open>
  C2. For a file whose extracted window is \<open>[file_start_time, file_end_time]\<close>, and no
  channel or scene filter, the per-file filter keeps the path if and only if it is not the
  case that the window ends strictly before the start bound of the query or starts
  strictly after its end bound (a bound that is \<^verbatim>\<open>None\<close> excludes nothing); otherwise it
  returns \<^verbatim>\<open>None\<close>.
\<close>

theorem filter_file_interval_overlap:
  assumes "get_info_from_filepath env fpath = Inr info"
    and "start_time info = Some file_start_time"
    and "end_time info = Some file_end_time"
  shows "(filter_file env fpath level query_start query_end None None = Inr (Some fpath)
            \<longleftrightarrow> \<not> ((\<exists>qs. query_start = Some qs \<and> file_end_time < qs)
                    \<or> (\<exists>qe. query_end = Some qe \<and> qe < file_start_time)))
         \<and> (filter_file env fpath level query_start query_end None None = Inr None
            \<longleftrightarrow> (\<exists>qs. query_start = Some qs \<and> file_end_time < qs)
                \<or> (\<exists>qe. query_end = Some qe \<and> qe < file_start_time))"
  using assms by (cases query_start; cases query_end) (simp_all add: filter_file_def)

text \<open>
  The file with window 10:00 to 10:10 is kept for the query ranges 10:05 to 10:06, 09:55
  to 10:01 and 10:09 to 10:20, and excluded for 10:11 to 10:20 and 09:00 to 09:59.
\<close>

theorem filter_file_interval_overlap_witness:
  "filter_file (example_env [(minutes 600, minutes 600)]) file_1000 ''L1b''
     (Some (minutes 605)) (Some (minutes 606)) None None = Inr (Some file_1000)
   \<and> filter_file (example_env [(minutes 600, minutes 600)]) file_1000 ''L1b''
     (Some (minutes 595)) (Some (minutes 601)) None None = Inr (Some file_1000)
   \<and> filter_file (example_env [(minutes 600, minutes 600)]) file_1000 ''L1b''
     (Some (minutes 609)) (Some (minutes 620)) None None = Inr (Some file_1000)
   \<and> filter_file (example_env [(minutes 600, minutes 600)]) file_1000 ''L1b''
     (Some (minutes 611)) (Some (minutes 620)) None None = Inr None
   \<and> filter_file (example_env [(minutes 600, minutes 600)]) file_1000 ''L1b''
     (Some (minutes 540)) (Some (minutes 599)) None None = Inr None"
proof -
  obtain info where g: "get_info_from_filepath (example_env [(minutes 600, minutes 600)]) file_1000 = Inr info"
    and s: "start_time info = Some (minutes 600)" and e: "end_time info = Some (minutes 610)"
    using info_file_1000
    by (cases "get_info_from_filepath (example_env [(minutes 600, minutes 600)]) file_1000") auto
  note th = filter_file_interval_overlap [OF g s e, of "''L1b''"]
  show ?thesis
    using th [of "Some (minutes 605)" "Some (minutes 606)"]
      th [of "Some (minutes 595)" "Some (minutes 601)"]
      th [of "Some (minutes 609)" "Some (minutes 620)"]
      th [of "Some (minutes 611)" "Some (minutes 620)"]
      th [of "Some (minutes 540)" "Some (minutes 599)"]
    by (simp add: minutes_def)
qed

text \<open>
  C4, as amended. \<^verbatim>\<open>find_closest_start_time\<close> first drops the seconds of the target time. When
  it returns a time, the sector has a cadence, the search went over the window of one
  cadence before and after the truncated target, and the time returned is a start time of
  the files found there that minimises the absolute distance to the truncated target.
  When that search finds nothing the call fails with the no-data error, and when it finds
  something the call returns.
\<close>

theorem find_closest_start_time_minute_window:
  "(find_closest_start_time env time sat level prd sec base_dir protocol fp = Inr t \<longrightarrow>
      (\<exists>cad g. get_acquisition_max_timedelta sec = Inr cad
         \<and> find_files env sat level prd (replace_microsecond0_second0 time - cad)
              (replace_microsecond0_second0 time + cad) sec fp (Some By_start_time) None
              base_dir protocol = Inr (Grouped g)
         \<and> t \<in> set (map fst g)
         \<and> (\<forall>k \<in> set (map fst g).
               \<bar>t - replace_microsecond0_second0 time\<bar> \<le> \<bar>k - replace_microsecond0_second0 time\<bar>)))
   \<and> (get_acquisition_max_timedelta sec = Inr cad
       \<and> find_files env sat level prd (replace_microsecond0_second0 time - cad)
              (replace_microsecond0_second0 time + cad) sec fp (Some By_start_time) None
              base_dir protocol = Inr (Grouped g) \<longrightarrow>
       (if g = []
        then find_closest_start_time env time sat level prd sec base_dir protocol fp
             = Inl (ValueError
                 ''No data available in previous and next {dt_str} minutes around {time}.'' [])
        else (\<exists>t. find_closest_start_time env time sat level prd sec base_dir protocol fp
                  = Inr t)))"
proof (intro conjI impI)
  assume a: "find_closest_start_time env time sat level prd sec base_dir protocol fp = Inr t"
  from find_closest_start_time_Inr [OF a] obtain cad g where
    c: "get_acquisition_max_timedelta sec = Inr cad"
    and f: "find_files env sat level prd (replace_microsecond0_second0 time - cad)
          (replace_microsecond0_second0 time + cad) sec fp (Some By_start_time) None
          base_dir protocol = Inr (Grouped g)"
    and s: "select_closest (replace_microsecond0_second0 time) (map fst g) = Inr t"
    by blast
  show "\<exists>cad g. get_acquisition_max_timedelta sec = Inr cad
         \<and> find_files env sat level prd (replace_microsecond0_second0 time - cad)
              (replace_microsecond0_second0 time + cad) sec fp (Some By_start_time) None
              base_dir protocol = Inr (Grouped g)
         \<and> t \<in> set (map fst g)
         \<and> (\<forall>k \<in> set (map fst g).
               \<bar>t - replace_microsecond0_second0 time\<bar> \<le> \<bar>k - replace_microsecond0_second0 time\<bar>)"
    using c f select_closest_props(1,2) [OF s] by blast
next
  assume "get_acquisition_max_timedelta sec = Inr cad
       \<and> find_files env sat level prd (replace_microsecond0_second0 time - cad)
              (replace_microsecond0_second0 time + cad) sec fp (Some By_start_time) None
              base_dir protocol = Inr (Grouped g)"
  then have eq: "find_closest_start_time env time sat level prd sec base_dir protocol fp
     = select_closest (replace_microsecond0_second0 time) (map fst g)"
    using find_closest_start_time_eq by blast
  show "if g = []
        then find_closest_start_time env time sat level prd sec base_dir protocol fp
             = Inl (ValueError
                 ''No data available in previous and next {dt_str} minutes around {time}.'' [])
        else (\<exists>t. find_closest_start_time env time sat level prd sec base_dir protocol fp
                  = Inr t)"
  proof (cases "g = []")
    case True
    then show ?thesis using eq select_closest_empty by simp
  next
    case False
    then have "map fst g \<noteq> []" by simp
    then show ?thesis using eq select_closest_nonempty False by simp
  qed
qed

text \<open>
  With the files of 10:00 and 10:10 and the target 10:05:30 the call returns 10:00, one of
  the start times found; with an empty store it fails with the no-data error.
\<close>

theorem find_closest_start_time_minute_window_witness:
  "(\<exists>cad g. get_acquisition_max_timedelta (Some ''FLDK'') = Inr cad
      \<and> find_files (example_env files_1000_1010) ''H8'' ''L1b'' ''Rad''
           (replace_microsecond0_second0 (minutes 605 + seconds 30) - cad)
           (replace_microsecond0_second0 (minutes 605 + seconds 30) + cad)
           (Some ''FLDK'') no_filter (Some By_start_time) None None (Some ''s3'')
         = Inr (Grouped g)
      \<and> minutes 600 \<in> set (map fst g))
   \<and> find_closest_start_time (example_env []) (minutes 605) ''H8'' ''L1b'' ''Rad''
        (Some ''FLDK'') None (Some ''s3'') no_filter
      = Inl (ValueError
               ''No data available in previous and next {dt_str} minutes around {time}.'' [])"
proof
  show "\<exists>cad g. get_acquisition_max_timedelta (Some ''FLDK'') = Inr cad
      \<and> find_files (example_env files_1000_1010) ''H8'' ''L1b'' ''Rad''
           (replace_microsecond0_second0 (minutes 605 + seconds 30) - cad)
           (replace_microsecond0_second0 (minutes 605 + seconds 30) + cad)
           (Some ''FLDK'') no_filter (Some By_start_time) None None (Some ''s3'')
         = Inr (Grouped g)
      \<and> minutes 600 \<in> set (map fst g)"
    using find_closest_start_time_minute_window
      [of "example_env files_1000_1010" "minutes 605 + seconds 30" "''H8''" "''L1b''" "''Rad''"
          "Some ''FLDK''" None "Some ''s3''" no_filter "minutes 600"]
      closest_of_100530
    by blast
next
  have c: "get_acquisition_max_timedelta (Some ''FLDK'') = Inr (minutes 10)"
    by (simp add: get_acquisition_max_timedelta_def)
  have tm: "replace_microsecond0_second0 (minutes 605) = minutes 605"
    by (simp add: replace_microsecond0_second0_def minutes_def)
  have f: "find_files (example_env []) ''H8'' ''L1b'' ''Rad''
      (replace_microsecond0_second0 (minutes 605) - minutes 10)
      (replace_microsecond0_second0 (minutes 605) + minutes 10)
      (Some ''FLDK'') no_filter (Some By_start_time) None None (Some ''s3'') = Inr (Grouped [])"
    using search_empty_store unfolding tm by (simp add: minutes_def)
  show "find_closest_start_time (example_env []) (minutes 605) ''H8'' ''L1b'' ''Rad''
        (Some ''FLDK'') None (Some ''s3'') no_filter
      = Inl (ValueError
               ''No data available in previous and next {dt_str} minutes around {time}.'' [])"
    using find_closest_start_time_minute_window
      [of "example_env []" "minutes 605" "''H8''" "''L1b''" "''Rad''"
          "Some ''FLDK''" None "Some ''s3''" no_filter _ "minutes 10" "[]"]
      c f
    by simp
qed

text \<open>
  C4 as stated fails: for the target 10:05:30 the call returns 10:00, although 10:10 is a
  start time found in the window of ten minutes around 10:05:30 and is nearer to the
  target.
\<close>

theorem closest_to_100530_counterexample:
  "find_closest_start_time (example_env files_1000_1010) (minutes 605 + seconds 30)
     ''H8'' ''L1b'' ''Rad'' (Some ''FLDK'') None (Some ''s3'') no_filter = Inr (minutes 600)
   \<and> find_files (example_env files_1000_1010) ''H8'' ''L1b'' ''Rad''
     (minutes 605 + seconds 30 - minutes 10) (minutes 605 + seconds 30 + minutes 10)
     (Some ''FLDK'') no_filter (Some By_start_time) None None (Some ''s3'')
   = Inr (Grouped [(minutes 600, [''s3://'' @ fldk_path (minutes 600) (minutes 600)]),
                   (minutes 610, [''s3://'' @ fldk_path (minutes 610) (minutes 610)])])
   \<and> \<bar>minutes 610 - (minutes 605 + seconds 30)\<bar> < \<bar>minutes 600 - (minutes 605 + seconds 30)\<bar>"
  using closest_of_100530 search_around_100530 by (simp add: minutes_def seconds_def)





text \<open>
  C7, as amended. Every file information that \<^verbatim>\<open>_get_info_from_filename\<close> produces has an
  \<^verbatim>\<open>end_time\<close>. When the file name carries no sector token, or a full-disk token, the start
  is the parsed start without its sub-second part, and the end is the parsed end without
  its sub-second part if the name carries one, and the start plus ten minutes otherwise;
  when the parser binds no sector the sector is FLDK, whose cadence is these ten minutes.
  In that case the start is not after the end provided the file name itself does not
  carry an end before its start.
\<close>

theorem get_info_end_time_defined:
  assumes "get_info_from_filename env fname = Inr info"
  shows "\<exists>level inferred parsed.
      infer_product_level fname = Inr level \<and> infer_product fname = Inr inferred
    \<and> parse env level inferred fname = Inr parsed
    \<and> end_time info \<noteq> None
    \<and> (sector_observation_number parsed = None
        \<or> (\<exists>token. sector_observation_number parsed = Some token \<and> contains token ''FLDK'')
       \<longrightarrow> start_time info = map_option replace_microsecond0 (start_time parsed)
         \<and> end_time info = (case end_time parsed of
                              Some e \<Rightarrow> Some (replace_microsecond0 e)
                            | None \<Rightarrow> map_option (\<lambda>s. s + minutes 10) (start_time info))
         \<and> (sector parsed = None \<longrightarrow>
              sector info = Some ''FLDK''
              \<and> get_acquisition_max_timedelta (sector info) = Inr (minutes 10))
         \<and> ((\<forall>ps pe. start_time parsed = Some ps \<and> end_time parsed = Some pe \<longrightarrow> ps \<le> pe)
              \<longrightarrow> (\<forall>s e. start_time info = Some s \<and> end_time info = Some e \<longrightarrow> s \<le> e)))"
proof -
  from get_info_from_filename_Inr [OF assms] obtain level inferred parsed where
    l: "infer_product_level fname = Inr level" and p: "infer_product fname = Inr inferred"
    and q: "parse env level inferred fname = Inr parsed"
    and r: "info_from_parsed level inferred parsed = Inr info" by blast
  have e: "end_time info \<noteq> None" by (rule info_from_parsed_end_time [OF r])
  have u: "start_time info = map_option replace_microsecond0 (start_time parsed)
         \<and> end_time info = (case end_time parsed of
                              Some e \<Rightarrow> Some (replace_microsecond0 e)
                            | None \<Rightarrow> map_option (\<lambda>s. s + minutes 10) (start_time info))
         \<and> (sector parsed = None \<longrightarrow>
              sector info = Some ''FLDK''
              \<and> get_acquisition_max_timedelta (sector info) = Inr (minutes 10))
         \<and> ((\<forall>ps pe. start_time parsed = Some ps \<and> end_time parsed = Some pe \<longrightarrow> ps \<le> pe)
              \<longrightarrow> (\<forall>s e. start_time info = Some s \<and> end_time info = Some e \<longrightarrow> s \<le> e))"
    if n: "sector_observation_number parsed = None
        \<or> (\<exists>token. sector_observation_number parsed = Some token \<and> contains token ''FLDK'')"
  proof -
    note f = info_from_parsed_unshifted [OF r n]
    have sec: "sector parsed = None \<longrightarrow>
              sector info = Some ''FLDK''
              \<and> get_acquisition_max_timedelta (sector info) = Inr (minutes 10)"
      using f(3) by (auto simp: get_acquisition_max_timedelta_def)
    have ord: "s \<le> e" if o: "\<forall>ps pe. start_time parsed = Some ps \<and> end_time parsed = Some pe \<longrightarrow> ps \<le> pe"
      and s: "start_time info = Some s" and e: "end_time info = Some e" for s e
    proof (cases "end_time parsed")
      case None
      then have "e = s + minutes 10" using f(2) s e by simp
      then show ?thesis by (simp add: minutes_def)
    next
      case (Some pe)
      from s f(1) obtain ps where ps: "start_time parsed = Some ps" "s = replace_microsecond0 ps"
        by (cases "start_time parsed") auto
      have "e = replace_microsecond0 pe" using f(2) e Some by simp
      moreover have "ps \<le> pe" using o ps(1) Some by simp
      ultimately show ?thesis using ps(2) replace_microsecond0_mono by simp
    qed
    show ?thesis using f(1,2) sec ord by blast
  qed
  show ?thesis
  proof (intro exI conjI)
    show "infer_product_level fname = Inr level" by (rule l)
    show "infer_product fname = Inr inferred" by (rule p)
    show "parse env level inferred fname = Inr parsed" by (rule q)
    show "end_time info \<noteq> None" by (rule e)
    show "sector_observation_number parsed = None
        \<or> (\<exists>token. sector_observation_number parsed = Some token \<and> contains token ''FLDK'')
       \<longrightarrow> start_time info = map_option replace_microsecond0 (start_time parsed)
         \<and> end_time info = (case end_time parsed of
                              Some e \<Rightarrow> Some (replace_microsecond0 e)
                            | None \<Rightarrow> map_option (\<lambda>s. s + minutes 10) (start_time info))
         \<and> (sector parsed = None \<longrightarrow>
              sector info = Some ''FLDK''
              \<and> get_acquisition_max_timedelta (sector info) = Inr (minutes 10))
         \<and> ((\<forall>ps pe. start_time parsed = Some ps \<and> end_time parsed = Some pe \<longrightarrow> ps \<le> pe)
              \<longrightarrow> (\<forall>s e. start_time info = Some s \<and> end_time info = Some e \<longrightarrow> s \<le> e))"
      using u by (rule impI)
  qed
qed

text \<open>
  The full-disk file of 10:00: the parser binds the token \<^verbatim>\<open>FLDK\<close> and no end, and the
  end is the start plus ten minutes.
\<close>

theorem get_info_end_time_defined_witness:
  "\<exists>info parsed. get_info_from_filename (example_env [(minutes 600, minutes 600)])
        (fldk_name (minutes 600)) = Inr info
     \<and> parsed = parsed_l1b (minutes 600) ''FLDK''
     \<and> contains ''FLDK'' ''FLDK''
     \<and> end_time info \<noteq> None
     \<and> end_time info = (case end_time parsed of
                          Some e \<Rightarrow> Some (replace_microsecond0 e)
                        | None \<Rightarrow> map_option (\<lambda>s. s + minutes 10) (start_time info))"
proof -
  obtain info where g: "get_info_from_filename (example_env [(minutes 600, minutes 600)])
        (fldk_name (minutes 600)) = Inr info"
    using info_fldk_1000
    by (cases "get_info_from_filename (example_env [(minutes 600, minutes 600)])
        (fldk_name (minutes 600))") auto
  have c: "contains ''FLDK'' ''FLDK''" by code_simp
  have t: "sector_observation_number (parsed_l1b (minutes 600) ''FLDK'') = Some ''FLDK''"
    by (simp add: parsed_l1b_def)
  from get_info_end_time_defined [OF g] obtain level inferred parsed where
    q: "parse (example_env [(minutes 600, minutes 600)]) level inferred (fldk_name (minutes 600))
        = Inr parsed"
    and e: "end_time info \<noteq> None"
    and u: "sector_observation_number parsed = None
        \<or> (\<exists>token. sector_observation_number parsed = Some token \<and> contains token ''FLDK'')
       \<longrightarrow> end_time info = (case end_time parsed of
                              Some e \<Rightarrow> Some (replace_microsecond0 e)
                            | None \<Rightarrow> map_option (\<lambda>s. s + minutes 10) (start_time info))"
    by blast
  have pq: "parsed = parsed_l1b (minutes 600) ''FLDK''" using q parse_fldk_1000 by simp
  then have "\<exists>token. sector_observation_number parsed = Some token \<and> contains token ''FLDK''"
    using t c by blast
  then have "end_time info = (case end_time parsed of
                              Some e \<Rightarrow> Some (replace_microsecond0 e)
                            | None \<Rightarrow> map_option (\<lambda>s. s + minutes 10) (start_time info))"
    using u by blast
  then show ?thesis using g pq c e by blast
qed

text \<open>
  C7 as stated fails: the cloud-mask file name whose start field is 10:10 and whose end
  field is 10:00 matches the grammar, and its file information has the end before the
  start.
\<close>

theorem end_before_start_counterexample:
  "map_sum id (\<lambda>d. (start_time d, end_time d))
     (get_info_from_filename (example_env []) cmsk_name)
   = Inr (Some (minutes 610), Some (minutes 600))
   \<and> \<not> minutes 610 \<le> minutes 600"
  by code_simp

end
